theory Spec2Isabelle
  imports Complex_Main "HOL-Library.Sublist"
begin

section \<open>JavaScript values read by the ad engine\<close>

text \<open>
  The fields of a bid response come out of \<^verbatim>\<open>response.json()\<close>. The engine only applies
  truthiness tests, \<^verbatim>\<open>||\<close> chains and string conversion to them, so a field is
  modelled as a JSON scalar, with \<open>Absent\<close> for a missing property
  (\<^verbatim>\<open>undefined\<close>). Strings are lists of bytes; every token and URL the engine
  itself writes is ASCII.

  A number is kept in the decimal form that ECMAScript's \<^verbatim>\<open>Number::toString\<close> is
  specified on: a sign, the digits of the shortest decimal \<open>s\<close> (\<open>k\<close> digits, the first
  one non-zero) and the exponent \<open>n\<close>, the value being \<open>s * 10 ^ (n - k)\<close>. The empty
  digit list is zero.
\<close>

datatype jsnum = JSNum (neg: bool) (digits: "nat list") (pointpos: int)

datatype json = Absent | Null | JBool bool | JNumber jsnum | JString string

definition is_zero :: "jsnum \<Rightarrow> bool" where
  "is_zero x = list_all (\<lambda>d. d = 0) (digits x)"

fun truthy :: "json \<Rightarrow> bool" where
  "truthy Absent = False"
| "truthy Null = False"
| "truthy (JBool b) = b"
| "truthy (JNumber x) = (\<not> is_zero x)"
| "truthy (JString s) = (s \<noteq> [])"

definition digit_char :: "nat \<Rightarrow> char" where
  "digit_char d = ''0123456789'' ! (d mod 10)"

fun nat_to_string :: "nat \<Rightarrow> string" where
  "nat_to_string n =
     (if n < 10 then [digit_char n] else nat_to_string (n div 10) @ [digit_char (n mod 10)])"

text \<open>
  \<^verbatim>\<open>Number::toString(x, 10)\<close> of ECMA-262: plain notation while \<open>-6 < n \<le> 21\<close>,
  exponential notation otherwise.
\<close>

definition number_to_string :: "jsnum \<Rightarrow> string" where
  "number_to_string x =
     (if is_zero x then ''0''
      else
        let ds = map digit_char (digits x);
            k = int (length ds);
            n = pointpos x;
            body =
              (if k \<le> n \<and> n \<le> 21 then ds @ replicate (nat (n - k)) CHR ''0''
               else if 0 < n \<and> n \<le> 21 then take (nat n) ds @ ''.'' @ drop (nat n) ds
               else if -6 < n \<and> n \<le> 0 then ''0.'' @ replicate (nat (- n)) CHR ''0'' @ ds
               else
                 let e = n - 1;
                     es = (if e < 0 then ''-'' else ''+'') @ nat_to_string (nat \<bar>e\<bar>)
                 in if k = 1 then ds @ ''e'' @ es
                    else take 1 ds @ ''.'' @ drop 1 ds @ ''e'' @ es)
        in (if neg x then ''-'' else '''') @ body)"

text \<open>\<^verbatim>\<open>String(v)\<close>, the conversion \<^verbatim>\<open>String.prototype.replace\<close> applies to its second argument.\<close>

fun to_string :: "json \<Rightarrow> string" where
  "to_string Absent = ''undefined''"
| "to_string Null = ''null''"
| "to_string (JBool b) = (if b then ''true'' else ''false'')"
| "to_string (JNumber x) = number_to_string x"
| "to_string (JString s) = s"

text \<open>\<^verbatim>\<open>a || b\<close> on values.\<close>

definition js_or :: "json \<Rightarrow> json \<Rightarrow> json" where
  "js_or a b = (if truthy a then a else b)"

section \<open>The bid response\<close>

text \<open>
  The properties the engine reads from a bid (\<^verbatim>\<open>seatbid[0].bid[0]\<close>), a seat bid and the
  response. An array that is missing, not an array or empty is the empty list: all three
  make \<^verbatim>\<open>?.[0]\<close> undefined.
\<close>

record bid =
  bid_id :: json
  impid :: json
  price :: json
  adid :: json
  adm :: json
  nurl :: json
  burl :: json

record seatbid =
  seat :: json
  bids :: "bid list"

record tracking =
  impression_url :: json
  click_url :: json
  billable_impression_url :: json
  destination_url :: json

record bidResponse =
  ad_type :: json
  resp_id :: json
  bidid :: json
  cur :: json
  seatbids :: "seatbid list"
  full_file_path :: json
  creative_type :: json
  brand_name :: json
  tracking :: "tracking option"

text \<open>\<^verbatim>\<open>bidResponse?.seatbid?.[0]?.bid?.[0]\<close>; the response itself may be \<^verbatim>\<open>null\<close>.\<close>

definition first_seatbid :: "bidResponse option \<Rightarrow> seatbid option" where
  "first_seatbid r =
     (case r of None \<Rightarrow> None
      | Some resp \<Rightarrow> (case seatbids resp of [] \<Rightarrow> None | sb # _ \<Rightarrow> Some sb))"

definition first_bid :: "bidResponse option \<Rightarrow> bid option" where
  "first_bid r =
     (case first_seatbid r of None \<Rightarrow> None
      | Some sb \<Rightarrow> (case bids sb of [] \<Rightarrow> None | b # _ \<Rightarrow> Some b))"

section \<open>Macro substitution: replaceAuctionMacros\<close>

text \<open>
  \<^verbatim>\<open>macro.replace(/\$/g, "\\$")\<close> puts a backslash in front of every dollar sign; the result is
  compiled by \<^verbatim>\<open>new RegExp(..., "g")\<close>. In such a pattern \<^verbatim>\<open>\$\<close> matches a dollar sign
  and every other character of a macro name, the braces included, matches itself.
\<close>

fun escape_dollar :: "string \<Rightarrow> string" where
  "escape_dollar [] = []"
| "escape_dollar (c # cs) =
     (if c = CHR ''$'' then CHR 0x5C # c # escape_dollar cs else c # escape_dollar cs)"

fun pattern_literal :: "string \<Rightarrow> string" where
  "pattern_literal [] = []"
| "pattern_literal [c] = [c]"
| "pattern_literal (c # d # cs) =
     (if c = CHR 0x5C then d # pattern_literal cs else c # pattern_literal (d # cs))"

text \<open>
  \<^verbatim>\<open>GetSubstitution\<close> of ECMA-262 for a pattern with no capture group: in the replacement
  text \<^verbatim>\<open>$$\<close> is a dollar sign, \<^verbatim>\<open>$&\<close> the matched text, \<^verbatim>\<open>$`\<close> the text in front of
  the match and \<^verbatim>\<open>$'\<close> the text after it; every other character stands for itself.
\<close>

fun GetSubstitution :: "string \<Rightarrow> string \<Rightarrow> string \<Rightarrow> string \<Rightarrow> string" where
  "GetSubstitution matched pre after [] = []"
| "GetSubstitution matched pre after [c] = [c]"
| "GetSubstitution matched pre after (c # d # cs) =
     (if c = CHR ''$'' then
        (if d = CHR ''$'' then CHR ''$'' # GetSubstitution matched pre after cs
         else if d = CHR ''&'' then matched @ GetSubstitution matched pre after cs
         else if d = CHR 0x60 then pre @ GetSubstitution matched pre after cs
         else if d = CHR 0x27 then after @ GetSubstitution matched pre after cs
         else c # GetSubstitution matched pre after (d # cs))
      else c # GetSubstitution matched pre after (d # cs))"

text \<open>
  \<^verbatim>\<open>str.replace(new RegExp(pattern, "g"), value)\<close> for a literal pattern \<open>tok\<close>: the matches
  are found from left to right in the subject, without overlap, and each is replaced by
  the expansion of \<open>value\<close>. \<open>pre\<close> is the part of the subject already scanned.
\<close>

function replace_global :: "string \<Rightarrow> string \<Rightarrow> string \<Rightarrow> string \<Rightarrow> string" where
  "replace_global tok v pre [] = []"
| "replace_global tok v pre (c # cs) =
     (if tok \<noteq> [] \<and> prefix tok (c # cs)
      then GetSubstitution tok pre (drop (length tok) (c # cs)) v
             @ replace_global tok v (pre @ tok) (drop (length tok) (c # cs))
      else c # replace_global tok v (pre @ [c]) cs)"
  by pat_completeness auto
termination
  by (relation "measure (\<lambda>(tok, v, pre, s). length s)") (auto simp: neq_Nil_conv)

definition js_replace :: "string \<Rightarrow> string \<Rightarrow> string \<Rightarrow> string" where
  "js_replace macro v s = replace_global (pattern_literal (escape_dollar macro)) v [] s"

text \<open>
  The \<^verbatim>\<open>macros\<close> object of \<^verbatim>\<open>replaceAuctionMacros\<close>, in the order of
  \<^verbatim>\<open>Object.entries\<close> (insertion order). \<^verbatim>\<open>bid.price?.toString() || ""\<close> converts first
  and tests the string.
\<close>

definition price_string :: "json \<Rightarrow> string" where
  "price_string p = (case p of Absent \<Rightarrow> '''' | Null \<Rightarrow> '''' | _ \<Rightarrow> to_string p)"

definition macros :: "bidResponse \<Rightarrow> seatbid \<Rightarrow> bid \<Rightarrow> (string \<times> string) list" where
  "macros resp sb b =
     [(''${AUCTION_ID}'', to_string (js_or (js_or (resp_id resp) (bidid resp)) (JString ''''))),
      (''${AUCTION_BID_ID}'', to_string (js_or (bid_id b) (JString ''''))),
      (''${AUCTION_IMP_ID}'', to_string (js_or (impid b) (JString ''''))),
      (''${AUCTION_SEAT_ID}'', to_string (js_or (seat sb) (JString ''''))),
      (''${AUCTION_PRICE}'', price_string (price b)),
      (''${AUCTION_CURRENCY}'', to_string (js_or (cur resp) (JString ''''))),
      (''${AUCTION_MBR}'', ''''),
      (''${AUCTION_AD_ID}'', to_string (js_or (adid b) (JString ''''))),
      (''${AUCTION_LOSS}'', '''')]"

text \<open>
  \<^verbatim>\<open>Object.entries(macros).reduce((acc, [macro, value]) => acc.replace(..., value), url)\<close>,
  behind the guard \<^verbatim>\<open>if (!url || !bidResponse?.seatbid?.[0]?.bid?.[0]) return url\<close>.
\<close>

definition replaceAuctionMacros :: "string \<Rightarrow> bidResponse option \<Rightarrow> string" where
  "replaceAuctionMacros url r =
     (case (r, first_seatbid r, first_bid r) of
        (Some resp, Some sb, Some b) \<Rightarrow>
          (if url = [] then url
           else foldl (\<lambda>acc (macro, v). js_replace macro v acc) url (macros resp sb b))
      | _ \<Rightarrow> url)"

section \<open>Viewability tracking: setupViewabilityTracking\<close>

text \<open>
  One tracked media element. \<open>viewabilityTracking\<close> is the flag
  \<^verbatim>\<open>element._viewabilityTracking\<close>; every call of \<^verbatim>\<open>setupViewabilityTracking\<close> that gets
  past the guard creates a closure with its own \<^verbatim>\<open>visibilityStart\<close>,
  \<^verbatim>\<open>visibilityTimeout\<close> and \<^verbatim>\<open>hasTriggeredBillable\<close>, an observer and a
  \<^verbatim>\<open>beforeunload\<close> listener: a \<open>tracker\<close>. Times are milliseconds as read from
  \<^verbatim>\<open>performance.now()\<close>; timer handles are the positive integers \<^verbatim>\<open>setTimeout\<close>
  returns. \<open>pending\<close> holds the timeouts set and not yet run or cleared, each with its
  handle, the time it is due and the tracker whose closure it runs. \<open>billable_calls\<close>
  records every run of a bound callback with the time of the run.
\<close>

record entry =
  isIntersecting :: bool
  intersectionRatio :: real

record tracker =
  visibilityStart :: "nat option"
  visibilityTimeout :: "nat option"
  hasTriggeredBillable :: bool
  observing :: bool
  unload_listener :: bool
  callback :: nat

record element =
  viewabilityTracking :: bool
  trackers :: "tracker list"
  pending :: "(nat \<times> nat \<times> nat) list"
  next_handle :: nat
  billable_calls :: "(nat \<times> nat) list"

definition THRESHOLD :: real where
  "THRESHOLD = 0.5"

definition DURATION :: nat where
  "DURATION = 1000"

definition new_element :: element where
  "new_element =
     \<lparr>viewabilityTracking = False, trackers = [], pending = [], next_handle = 1,
      billable_calls = []\<rparr>"

text \<open>The guard \<^verbatim>\<open>if (element._viewabilityTracking) return\<close>, then the set-up of the closure.\<close>

definition setupViewabilityTracking :: "nat \<Rightarrow> element \<Rightarrow> element" where
  "setupViewabilityTracking cb el =
     (if viewabilityTracking el then el
      else el\<lparr>viewabilityTracking := True,
              trackers := trackers el @
                [\<lparr>visibilityStart = None, visibilityTimeout = None,
                  hasTriggeredBillable = False, observing = True, unload_listener = True,
                  callback = cb\<rparr>]\<rparr>)"

text \<open>
  \<^verbatim>\<open>if (visibilityStart)\<close> and \<^verbatim>\<open>if (!visibilityStart)\<close> test a number or
  \<^verbatim>\<open>null\<close>: \<^verbatim>\<open>null\<close> and the number 0 are both falsy.
\<close>

definition truthy_time :: "nat option \<Rightarrow> bool" where
  "truthy_time t = (case t of None \<Rightarrow> False | Some n \<Rightarrow> n \<noteq> 0)"

definition clearTimeout :: "nat option \<Rightarrow> (nat \<times> nat \<times> nat) list \<Rightarrow> (nat \<times> nat \<times> nat) list" where
  "clearTimeout h ps = (case h of None \<Rightarrow> ps | Some n \<Rightarrow> filter (\<lambda>p. fst p \<noteq> n) ps)"

text \<open>The observer callback of tracker \<open>i\<close>, run at time \<open>now\<close> with \<^verbatim>\<open>entries[0]\<close>.\<close>

definition observer_callback :: "nat \<Rightarrow> entry \<Rightarrow> nat \<Rightarrow> element \<Rightarrow> element" where
  "observer_callback now e i el =
     (let t = trackers el ! i in
      if isIntersecting e \<and> THRESHOLD \<le> intersectionRatio e then
        (if \<not> truthy_time (visibilityStart t) then
           el\<lparr>trackers := (trackers el)[i := t\<lparr>visibilityStart := Some now,
                                                visibilityTimeout := Some (next_handle el)\<rparr>],
              pending := pending el @ [(next_handle el, now + DURATION, i)],
              next_handle := Suc (next_handle el)\<rparr>
         else el)
      else
        (if truthy_time (visibilityStart t) then
           el\<lparr>trackers := (trackers el)[i := t\<lparr>visibilityStart := None\<rparr>],
              pending := clearTimeout (visibilityTimeout t) (pending el)\<rparr>
         else el))"

text \<open>An intersection change is delivered to every observer that is still connected.\<close>

fun deliver :: "nat \<Rightarrow> entry \<Rightarrow> nat list \<Rightarrow> element \<Rightarrow> element" where
  "deliver now e [] el = el"
| "deliver now e (i # is) el =
     deliver now e is
       (if i < length (trackers el) \<and> observing (trackers el ! i)
        then observer_callback now e i el else el)"

definition intersection_change :: "nat \<Rightarrow> entry \<Rightarrow> element \<Rightarrow> element" where
  "intersection_change now e el = deliver now e [0..<length (trackers el)] el"

text \<open>
  The function passed to \<^verbatim>\<open>setTimeout\<close>, run for tracker \<open>i\<close> at time \<open>now\<close>. The
  bound callback is taken to return: were it to throw, \<^verbatim>\<open>hasTriggeredBillable\<close> would
  be set all the same and only \<^verbatim>\<open>observer.disconnect()\<close> would be skipped.
\<close>

definition timeout_callback :: "nat \<Rightarrow> nat \<Rightarrow> element \<Rightarrow> element" where
  "timeout_callback now i el =
     (let t = trackers el ! i in
      if \<not> hasTriggeredBillable t then
        el\<lparr>trackers := (trackers el)[i := t\<lparr>hasTriggeredBillable := True, observing := False\<rparr>],
           billable_calls := billable_calls el @ [(now, callback t)]\<rparr>
      else el)"

text \<open>Timer \<open>h\<close> expires at time \<open>now\<close>: nothing happens unless it is still pending.\<close>

definition timer_expires :: "nat \<Rightarrow> nat \<Rightarrow> element \<Rightarrow> element" where
  "timer_expires now h el =
     (case find (\<lambda>p. fst p = h) (pending el) of
        None \<Rightarrow> el
      | Some (h', due, i) \<Rightarrow>
          timeout_callback now i (el\<lparr>pending := filter (\<lambda>p. fst p \<noteq> h) (pending el)\<rparr>))"

text \<open>The \<^verbatim>\<open>beforeunload\<close> listeners, each registered with \<^verbatim>\<open>once: true\<close>.\<close>

fun unload_each :: "nat list \<Rightarrow> element \<Rightarrow> element" where
  "unload_each [] el = el"
| "unload_each (i # is) el =
     unload_each is
       (let t = trackers el ! i in
        if i < length (trackers el) \<and> unload_listener t then
          el\<lparr>trackers := (trackers el)[i := t\<lparr>observing := False, unload_listener := False\<rparr>],
             pending := clearTimeout (visibilityTimeout t) (pending el)\<rparr>
        else el)"

definition beforeunload :: "element \<Rightarrow> element" where
  "beforeunload el = unload_each [0..<length (trackers el)] el"

text \<open>Whatever can happen to a tracked element, in any order and at any time.\<close>

datatype event = Setup nat | Intersection entry | TimerExpires nat | BeforeUnload

fun step :: "element \<Rightarrow> nat \<times> event \<Rightarrow> element" where
  "step el (now, Setup cb) = setupViewabilityTracking cb el"
| "step el (now, Intersection e) = intersection_change now e el"
| "step el (now, TimerExpires h) = timer_expires now h el"
| "step el (now, BeforeUnload) = beforeunload el"

definition run_events :: "element \<Rightarrow> (nat \<times> event) list \<Rightarrow> element" where
  "run_events el evs = foldl step el evs"

text \<open>
  A clock: the pending timer that is due first (the older one among equals), and the run
  of every timer due by time \<open>t\<close>, each at the time it is due.
\<close>

fun earliest :: "(nat \<times> nat \<times> nat) list \<Rightarrow> (nat \<times> nat \<times> nat) option" where
  "earliest [] = None"
| "earliest (p # ps) =
     (case earliest ps of
        None \<Rightarrow> Some p
      | Some q \<Rightarrow> if fst (snd q) < fst (snd p) then Some q else Some p)"

function advance :: "nat \<Rightarrow> element \<Rightarrow> element" where
  "advance t el =
     (case earliest (pending el) of
        None \<Rightarrow> el
      | Some (h, due, i) \<Rightarrow> if due \<le> t then advance t (timer_expires due h el) else el)"
  by pat_completeness auto

lemma earliest_in: "earliest ps = Some p \<Longrightarrow> p \<in> set ps"
  by (induction ps arbitrary: p) (auto split: option.splits if_splits)

lemma pending_timeout_callback: "pending (timeout_callback now i el) = pending el"
  by (simp add: timeout_callback_def Let_def)

lemma pending_timer_expires:
  assumes "(h, due, i) \<in> set (pending el)"
  shows "length (pending (timer_expires now h el)) < length (pending el)"
proof -
  obtain q where q: "find (\<lambda>p. fst p = h) (pending el) = Some q"
    using assms by (cases "find (\<lambda>p. fst p = h) (pending el)") (auto simp: find_None_iff)
  have "length (filter (\<lambda>p. fst p \<noteq> h) (pending el)) < length (pending el)"
    using assms by (intro length_filter_less[of "(h, due, i)"]) auto
  then show ?thesis
    using q by (cases q) (simp add: timer_expires_def pending_timeout_callback)
qed

termination advance
  by (relation "measure (\<lambda>(t, el). length (pending el))")
     (auto dest!: earliest_in intro: pending_timer_expires)

declare advance.simps [simp del]

text \<open>A timeline of intersection changes, each delivered once the timers due by then have run.\<close>

fun play :: "(nat \<times> entry) list \<Rightarrow> element \<Rightarrow> element" where
  "play [] el = el"
| "play ((t, e) # rest) el = play rest (intersection_change t e (advance t el))"

section \<open>Slots, the bid request and rendering\<close>

subsection \<open>Reading a placeholder\<close>

text \<open>
  The text of a data attribute is a DOM string: a list of UTF-16 code units, here natural
  numbers. \<open>utf16\<close> writes an ASCII text as such a list.

  \<^verbatim>\<open>parseInt(s, 10)\<close>: leading white space (\<^verbatim>\<open>StrWhiteSpaceChar\<close> of ECMA-262: the
  white-space and line-terminator code points), an optional sign, then decimal digits
  up to the first other code unit; \<open>None\<close> is \<^verbatim>\<open>NaN\<close>. A missing data attribute is
  \<^verbatim>\<open>undefined\<close>, which \<^verbatim>\<open>parseInt\<close> reads as the text \<^verbatim>\<open>undefined\<close>. The result is
  kept as the exact integer the digits denote; the Number the code holds is the double
  nearest to it, which is zero exactly when the integer is.
\<close>

definition utf16 :: "string \<Rightarrow> nat list" where
  "utf16 s = map of_char s"

definition StrWhiteSpaceChar :: "nat list" where
  "StrWhiteSpaceChar =
     [0x09, 0x0A, 0x0B, 0x0C, 0x0D, 0x20, 0xA0, 0x1680,
      0x2000, 0x2001, 0x2002, 0x2003, 0x2004, 0x2005, 0x2006, 0x2007, 0x2008, 0x2009, 0x200A,
      0x2028, 0x2029, 0x202F, 0x205F, 0x3000, 0xFEFF]"

definition is_space :: "nat \<Rightarrow> bool" where
  "is_space c = (c \<in> set StrWhiteSpaceChar)"

definition is_digit :: "nat \<Rightarrow> bool" where
  "is_digit c = (48 \<le> c \<and> c \<le> 57)"

definition digit_value :: "nat \<Rightarrow> int" where
  "digit_value c = int c - 48"

definition digits_value :: "nat list \<Rightarrow> int" where
  "digits_value ds = foldl (\<lambda>acc c. 10 * acc + digit_value c) 0 ds"

text \<open>The code units 45 and 43 are the signs \<^verbatim>\<open>-\<close> and \<^verbatim>\<open>+\<close>.\<close>

definition parseInt :: "nat list \<Rightarrow> int option" where
  "parseInt s =
     (let t = dropWhile is_space s;
          negative = (t \<noteq> [] \<and> hd t = 45);
          u = (if t \<noteq> [] \<and> (hd t = 45 \<or> hd t = 43) then tl t else t);
          ds = takeWhile is_digit u
      in if ds = [] then None
         else Some (if negative then - digits_value ds else digits_value ds))"

definition parse_attribute :: "nat list option \<Rightarrow> int option" where
  "parse_attribute a = (case a of None \<Rightarrow> parseInt (utf16 ''undefined'') | Some s \<Rightarrow> parseInt s)"

text \<open>\<^verbatim>\<open>parseInt(...) || 0\<close>: \<^verbatim>\<open>NaN\<close> and 0 both give 0.\<close>

definition or_zero :: "int option \<Rightarrow> int" where
  "or_zero x = (case x of None \<Rightarrow> 0 | Some n \<Rightarrow> n)"

subsection \<open>The page, the network and the slot element\<close>

record slot =
  slot_id :: int
  width :: int
  height :: int

record config =
  geo :: string
  ipv6 :: string
  deviceType :: nat
  deviceMake :: string
  deviceModel :: string
  deviceOs :: string
  deviceOsVersion :: string
  deviceCarrier :: string

record bidRequest =
  req_slot_id :: int
  req_ua :: string
  req_device :: config
  req_pid :: "string option"

text \<open>
  The second argument of \<^verbatim>\<open>fetch\<close> in \<^verbatim>\<open>makeBidRequest\<close>. \<open>init_timeout\<close> is the
  member \<^verbatim>\<open>timeout: 3000\<close> the code passes.
\<close>

record request_init =
  init_method :: string
  init_content_type :: string
  init_body :: bidRequest
  init_timeout :: "nat option"

datatype net_call = BidPost string request_init | Beacon string

datatype js_error = TypeError string | Error string | SyntaxError string

datatype 'a promise = Pending | Fulfilled 'a | Rejected js_error

datatype body = InvalidJson | Json "bidResponse option"

text \<open>
  What the bid endpoint does with one request: the transport fails, an HTTP response
  arrives, or nothing ever arrives.
\<close>

datatype fetch_behaviour = NetworkFailure | Response nat body | NoResponse

record response =
  status :: nat
  response_body :: body

text \<open>
  The markup of an ORTB bid as \<^verbatim>\<open>DOMParser\<close> hands it to \<^verbatim>\<open>extractUrls\<close>: the
  \<^verbatim>\<open>href\<close> of the first anchor, the \<^verbatim>\<open>src\<close> and the \<^verbatim>\<open>onload\<close> attribute of the
  first image, each \<open>None\<close> when the element (or, for \<^verbatim>\<open>onload\<close>, the attribute) is
  missing.
\<close>

record parsed_markup =
  anchor_href :: "string option"
  img_src :: "string option"
  img_onload :: "string option"

text \<open>
  Everything the engine reads from outside: \<^verbatim>\<open>window.adSystemConfig\<close> as it is found at
  the check that follows \<open>n\<close> waits, the user agent, the \<^verbatim>\<open>pid\<close> query parameter, what
  the endpoint does with the request of the placeholder at a position, and the HTML
  parser applied to \<^verbatim>\<open>bid.adm\<close>.
\<close>

record env =
  config_after :: "nat \<Rightarrow> config option"
  userAgent :: string
  query_pid :: "string option"
  bidder :: "nat \<Rightarrow> bidRequest \<Rightarrow> fetch_behaviour"
  dom_parser :: "json \<Rightarrow> parsed_markup"

record urls =
  clickUrl :: "string option"
  imageUrl :: "string option"
  impressionUrl :: "string option"

datatype creative =
    BrandCreative bidResponse
  | TestingCreative bidResponse
  | OrtbCreative bidResponse bid urls

text \<open>
  What a slot element holds: the page's own content, the loading box, nothing
  (\<^verbatim>\<open>innerHTML = ""\<close>), the error box of \<^verbatim>\<open>showError\<close> with its message, or a
  rendered creative.
\<close>

datatype content = Original | LoadingBox | Cleared | ErrorBox string | Creative creative

record slotElement =
  data_width :: "nat list option"
  data_height :: "nat list option"
  data_slot_id :: "nat list option"
  style_width :: "int option"
  style_height :: "int option"
  display_none :: bool
  innerHTML :: content

definition bidderUrl :: string where
  "bidderUrl = ''https://dev.ssp.verismart.ai/api/ssp-load-ads''"

definition updateJourneyUrl :: string where
  "updateJourneyUrl = ''https://dev.ssp.verismart.ai/api/update-adjourney''"

definition EVENT_IMPRESSION :: string where
  "EVENT_IMPRESSION = ''impression_at''"

definition EVENT_BILLED_IMPRESSION :: string where
  "EVENT_BILLED_IMPRESSION = ''billable_impression_at''"

subsection \<open>hideAdSlot and showError\<close>

text \<open>
  \<^verbatim>\<open>hideAdSlot\<close> sets \<^verbatim>\<open>style.display = 'none'\<close> and writes its message to the console
  only; \<^verbatim>\<open>showError\<close> replaces the content by the error box around the message.
\<close>

definition hideAdSlot :: "slotElement \<Rightarrow> string \<Rightarrow> slotElement" where
  "hideAdSlot el message = el\<lparr>display_none := True\<rparr>"

definition showError :: "slotElement \<Rightarrow> string \<Rightarrow> slotElement" where
  "showError el message = el\<lparr>innerHTML := ErrorBox message\<rparr>"

subsection \<open>The bid request\<close>

text \<open>
  \<^verbatim>\<open>fetch(url, init)\<close>: the promise settles as the endpoint behaves. A request made with
  \<^verbatim>\<open>fetch\<close> has no time limit of its own, and \<^verbatim>\<open>timeout\<close> is not a member of the
  init dictionary that \<^verbatim>\<open>fetch\<close> reads.
\<close>

definition fetch :: "fetch_behaviour \<Rightarrow> string \<Rightarrow> request_init \<Rightarrow> response promise" where
  "fetch behaviour url init =
     (case behaviour of
        NetworkFailure \<Rightarrow> Rejected (TypeError ''Failed to fetch'')
      | Response st b \<Rightarrow> Fulfilled \<lparr>status = st, response_body = b\<rparr>
      | NoResponse \<Rightarrow> Pending)"

definition response_ok :: "response \<Rightarrow> bool" where
  "response_ok r = (200 \<le> status r \<and> status r \<le> 299)"

text \<open>
  \<^verbatim>\<open>makeBidRequest\<close>: one POST; an error of \<^verbatim>\<open>fetch\<close> and the error thrown for a status
  outside 2xx are logged and thrown again, and a body that is not JSON rejects the
  promise \<^verbatim>\<open>response.json()\<close> returns. The result is the promise with the calls made.
\<close>

definition makeBidRequest ::
  "env \<Rightarrow> config \<Rightarrow> nat \<Rightarrow> slot \<Rightarrow> string option \<Rightarrow> (bidResponse option) promise \<times> net_call list" where
  "makeBidRequest ev cfg i sl pid =
     (let req = \<lparr>req_slot_id = slot_id sl, req_ua = userAgent ev, req_device = cfg,
                 req_pid = (case pid of None \<Rightarrow> None | Some p \<Rightarrow> if p = [] then None else Some p)\<rparr>;
          init = \<lparr>init_method = ''POST'', init_content_type = ''application/json'',
                  init_body = req, init_timeout = Some 3000\<rparr>
      in (case fetch (bidder ev i req) bidderUrl init of
            Pending \<Rightarrow> Pending
          | Rejected e \<Rightarrow> Rejected e
          | Fulfilled r \<Rightarrow>
              if \<not> response_ok r then Rejected (Error (''HTTP Error '' @ nat_to_string (status r)))
              else (case response_body r of
                      InvalidJson \<Rightarrow> Rejected (SyntaxError ''Unexpected token'')
                    | Json j \<Rightarrow> Fulfilled j),
          [BidPost bidderUrl init]))"

subsection \<open>Beacons\<close>

text \<open>\<^verbatim>\<open>sendImpression\<close>: nothing for a falsy URL, one GET otherwise.\<close>

definition sendImpression :: "string \<Rightarrow> net_call list" where
  "sendImpression url = (if url = [] then [] else [Beacon url])"

text \<open>
  \<^verbatim>\<open>new URLSearchParams({bid_id: ..., event: ...}).toString()\<close>: the
  \<^verbatim>\<open>application/x-www-form-urlencoded\<close> serialiser on the bytes of each value.
\<close>

definition hex_digit :: "nat \<Rightarrow> char" where
  "hex_digit d = ''0123456789ABCDEF'' ! (d mod 16)"

definition urlencode_byte :: "char \<Rightarrow> string" where
  "urlencode_byte c =
     (let n = (of_char c :: nat) in
      if c = CHR '' '' then ''+''
      else if (48 \<le> n \<and> n \<le> 57) \<or> (65 \<le> n \<and> n \<le> 90) \<or> (97 \<le> n \<and> n \<le> 122)
              \<or> c \<in> set ''*-._''
      then [c]
      else [CHR ''%'', hex_digit (n div 16), hex_digit n])"

definition urlencode :: "string \<Rightarrow> string" where
  "urlencode s = concat (map urlencode_byte s)"

definition journey_url :: "bidResponse \<Rightarrow> string \<Rightarrow> string" where
  "journey_url resp ev_name =
     updateJourneyUrl @ ''?'' @ ''bid_id='' @ urlencode (to_string (js_or (resp_id resp) (bidid resp)))
       @ ''&event='' @ urlencode ev_name"

subsection \<open>extractUrls\<close>

text \<open>
  The first match of \<^verbatim>\<open>/sendUrl\('([^']+)'\)/\<close> in the \<^verbatim>\<open>onload\<close> attribute, and its
  group: at the leftmost \<^verbatim>\<open>sendUrl('\<close> that is followed by at least one character other
  than a quote and then by \<^verbatim>\<open>')\<close>.
\<close>

fun match_sendUrl :: "string \<Rightarrow> string option" where
  "match_sendUrl [] = None"
| "match_sendUrl (c # cs) =
     (let rest = drop 9 (c # cs);
          url = takeWhile (\<lambda>x. x \<noteq> CHR 0x27) rest;
          after = dropWhile (\<lambda>x. x \<noteq> CHR 0x27) rest
      in if prefix (''sendUrl('' @ [CHR 0x27]) (c # cs) \<and> url \<noteq> []
            \<and> prefix [CHR 0x27, CHR '')''] after
         then Some url else match_sendUrl cs)"

text \<open>\<^verbatim>\<open>x || null\<close> on a string that may be missing.\<close>

definition or_null :: "string option \<Rightarrow> string option" where
  "or_null x = (case x of None \<Rightarrow> None | Some s \<Rightarrow> if s = [] then None else Some s)"

definition extractUrls :: "env \<Rightarrow> json \<Rightarrow> urls" where
  "extractUrls ev markup =
     (let doc = dom_parser ev markup in
      \<lparr>clickUrl = or_null (anchor_href doc),
       imageUrl = or_null (img_src doc),
       impressionUrl =
         (case or_null (img_onload doc) of
            None \<Rightarrow> None
          | Some a \<Rightarrow> or_null (match_sendUrl a))\<rparr>)"

subsection \<open>Rendering\<close>

text \<open>
  Each render function either reports through \<^verbatim>\<open>showError\<close> or \<^verbatim>\<open>hideAdSlot\<close>, or
  appends the creative to the slot that \<^verbatim>\<open>renderAd\<close> has emptied. The listeners it binds
  are the functions \<open>media_load\<close>, \<open>media_error\<close> and \<open>billable\<close> below.
\<close>

definition renderBrandAd :: "slotElement \<Rightarrow> bidResponse option \<Rightarrow> slotElement" where
  "renderBrandAd el ad =
     (case ad of
        None \<Rightarrow> showError el ''Invalid brand ad creative.''
      | Some a \<Rightarrow>
          if \<not> truthy (full_file_path a) then showError el ''Invalid brand ad creative.''
          else el\<lparr>innerHTML := Creative (BrandCreative a)\<rparr>)"

definition renderTestingPidAd :: "slotElement \<Rightarrow> bidResponse option \<Rightarrow> slotElement" where
  "renderTestingPidAd el ad =
     (case ad of
        None \<Rightarrow> hideAdSlot el ''Invalid testing_pid ad creative.''
      | Some a \<Rightarrow>
          if \<not> truthy (full_file_path a) then hideAdSlot el ''Invalid testing_pid ad creative.''
          else el\<lparr>innerHTML := Creative (TestingCreative a)\<rparr>)"

definition renderOrtbAd :: "env \<Rightarrow> slotElement \<Rightarrow> bidResponse option \<Rightarrow> slotElement" where
  "renderOrtbAd ev el r =
     (case (r, first_bid r) of
        (Some resp, Some b) \<Rightarrow>
          (let u = extractUrls ev (adm b) in
           if or_null (imageUrl u) = None then showError el ''Invalid ad creative.''
           else el\<lparr>innerHTML := Creative (OrtbCreative resp b u)\<rparr>)
      | _ \<Rightarrow> showError el ''No valid bid received.'')"

definition renderAd :: "env \<Rightarrow> slotElement \<Rightarrow> bidResponse option \<Rightarrow> slotElement" where
  "renderAd ev el r =
     (let el0 = el\<lparr>innerHTML := Cleared\<rparr>;
          adType = (case r of None \<Rightarrow> Absent | Some resp \<Rightarrow> ad_type resp)
      in if adType = JString ''brand'' then renderBrandAd el0 r
         else if adType = JString ''ortb'' then renderOrtbAd ev el0 r
         else if adType = JString ''testing_pid'' then renderTestingPidAd el0 r
         else hideAdSlot el0 ''Unknown ad type received.'')"

text \<open>\<^verbatim>\<open>ad.tracking?.field\<close>.\<close>

definition tracking_field :: "(tracking \<Rightarrow> json) \<Rightarrow> bidResponse \<Rightarrow> json" where
  "tracking_field f a = (case tracking a of None \<Rightarrow> Absent | Some t \<Rightarrow> f t)"

text \<open>
  A win or bill notice: rewritten by \<^verbatim>\<open>replaceAuctionMacros\<close> and sent when the
  property is truthy. A truthy value that is not a string has no \<^verbatim>\<open>replace\<close> method:
  the listener ends in a \<^verbatim>\<open>TypeError\<close> and nothing is sent.
\<close>

definition notice :: "json \<Rightarrow> bidResponse \<Rightarrow> net_call list" where
  "notice u resp =
     (case u of
        JString s \<Rightarrow> if s = [] then [] else sendImpression (replaceAuctionMacros s (Some resp))
      | _ \<Rightarrow> [])"

text \<open>The \<^verbatim>\<open>load\<close> (image) or \<^verbatim>\<open>loadeddata\<close> (video) listener of a rendered creative.\<close>

fun media_load :: "creative \<Rightarrow> net_call list" where
  "media_load (BrandCreative a) =
     (if truthy (tracking_field impression_url a)
      then sendImpression (to_string (tracking_field impression_url a)) else [])"
| "media_load (TestingCreative a) =
     (if truthy (tracking_field impression_url a)
      then sendImpression (to_string (tracking_field impression_url a)) else [])"
| "media_load (OrtbCreative resp b u) =
     (case or_null (impressionUrl u) of
        None \<Rightarrow> []
      | Some iu \<Rightarrow> sendImpression iu @ sendImpression (journey_url resp EVENT_IMPRESSION))
     @ notice (nurl b) resp"

text \<open>The \<^verbatim>\<open>error\<close> listener of the media element.\<close>

definition failed_to_load :: "bidResponse \<Rightarrow> string" where
  "failed_to_load a =
     (if creative_type a = JString ''video'' then ''Video'' else ''Image'') @ '' failed to load.''"

fun media_error :: "slotElement \<Rightarrow> creative \<Rightarrow> slotElement" where
  "media_error el (BrandCreative a) = showError el (failed_to_load a)"
| "media_error el (TestingCreative a) = hideAdSlot el (failed_to_load a)"
| "media_error el (OrtbCreative resp b u) = showError el ''Ad image failed to load.''"

text \<open>The callback handed to \<^verbatim>\<open>setupViewabilityTracking\<close>.\<close>

fun billable :: "creative \<Rightarrow> net_call list" where
  "billable (BrandCreative a) =
     (if truthy (tracking_field billable_impression_url a)
      then sendImpression (to_string (tracking_field billable_impression_url a)) else [])"
| "billable (TestingCreative a) =
     (if truthy (tracking_field billable_impression_url a)
      then sendImpression (to_string (tracking_field billable_impression_url a)) else [])"
| "billable (OrtbCreative resp b u) =
     sendImpression (journey_url resp EVENT_BILLED_IMPRESSION) @ notice (burl b) resp"

subsection \<open>loadAdForSlot and initialize\<close>

text \<open>
  \<^verbatim>\<open>loadAdForSlot\<close>: everything after \<^verbatim>\<open>await this.makeBidRequest\<close> runs only once that
  promise settles; a rejection is caught and ends in \<^verbatim>\<open>hideAdSlot\<close>. The result is the
  slot element, the promise of \<^verbatim>\<open>loadAdForSlot\<close> and the calls made.
\<close>

definition loadAdForSlot ::
  "env \<Rightarrow> config \<Rightarrow> nat \<Rightarrow> slotElement \<Rightarrow> slot \<Rightarrow> slotElement \<times> unit promise \<times> net_call list" where
  "loadAdForSlot ev cfg i el sl =
     (case makeBidRequest ev cfg i sl (query_pid ev) of
        (Pending, calls) \<Rightarrow> (el, Pending, calls)
      | (Rejected e, calls) \<Rightarrow> (hideAdSlot el ''Failed to load advertisement.'', Fulfilled (), calls)
      | (Fulfilled r, calls) \<Rightarrow> (renderAd ev el r, Fulfilled (), calls))"

text \<open>
  The function mapped over the placeholders in \<^verbatim>\<open>initialize\<close>. A negative length is
  not a value of the CSS \<^verbatim>\<open>width\<close> and \<^verbatim>\<open>height\<close> properties: assigning it leaves
  the style as it was.
\<close>

definition process_placeholder ::
  "env \<Rightarrow> config \<Rightarrow> nat \<Rightarrow> slotElement \<Rightarrow> slotElement \<times> unit promise \<times> net_call list" where
  "process_placeholder ev cfg i el =
     (let w = or_zero (parse_attribute (data_width el));
          h = or_zero (parse_attribute (data_height el));
          sid = or_zero (parse_attribute (data_slot_id el))
      in if w \<noteq> 0 \<and> h \<noteq> 0 \<and> sid \<noteq> 0 then
           loadAdForSlot ev cfg i
             (el\<lparr>style_width := (if 0 < w then Some w else style_width el),
                 style_height := (if 0 < h then Some h else style_height el),
                 innerHTML := LoadingBox\<rparr>)
             \<lparr>slot_id = sid, width = w, height = h\<rparr>
         else (hideAdSlot el ''Ad size & slot not defined.'', Fulfilled (), []))"

definition maxRetries :: nat where
  "maxRetries = 5"

definition baseDelay :: nat where
  "baseDelay = 500"

text \<open>
  The wait for \<^verbatim>\<open>window.adSystemConfig\<close>: the number of waits made and the milliseconds
  waited.
\<close>

function wait_for_config :: "env \<Rightarrow> nat \<Rightarrow> nat \<Rightarrow> nat \<times> nat" where
  "wait_for_config ev attempt waited =
     (if config_after ev attempt = None \<and> attempt < maxRetries
      then wait_for_config ev (Suc attempt) (waited + baseDelay * 2 ^ attempt)
      else (attempt, waited))"
  by pat_completeness auto
termination
  by (relation "measure (\<lambda>(ev, attempt, waited). maxRetries - attempt)") auto

declare wait_for_config.simps [simp del]

text \<open>\<^verbatim>\<open>Promise.allSettled\<close>: pending while one of the promises is, fulfilled otherwise.\<close>

definition allSettled :: "unit promise list \<Rightarrow> unit promise" where
  "allSettled ps = (if list_ex (\<lambda>p. p = Pending) ps then Pending else Fulfilled ())"

record run_result =
  outcome :: "unit promise"
  slots :: "slotElement list"
  network :: "net_call list"

text \<open>
  \<^verbatim>\<open>initialize\<close>: the promise it returns, the placeholders as it leaves them and the
  calls it made. A run that waits for ever on \<^verbatim>\<open>Promise.allSettled\<close> has the outcome
  \<open>Pending\<close>.
\<close>

definition initialize :: "env \<Rightarrow> slotElement list \<Rightarrow> run_result" where
  "initialize ev els =
     (case config_after ev (fst (wait_for_config ev 0 0)) of
        None \<Rightarrow> \<lparr>outcome = Fulfilled (), slots = els, network = []\<rparr>
      | Some cfg \<Rightarrow>
          (let rs = map (\<lambda>(i, el). process_placeholder ev cfg i el) (enumerate 0 els)
           in \<lparr>outcome = allSettled (map (\<lambda>r. fst (snd r)) rs),
               slots = map fst rs,
               network = concat (map (\<lambda>r. snd (snd r)) rs)\<rparr>))"

text \<open>
  A slot has reached a terminal state when it is hidden, shows the error box or holds a
  creative.
\<close>

definition terminal :: "slotElement \<Rightarrow> bool" where
  "terminal el =
     (display_none el \<or>
      (case innerHTML el of ErrorBox m \<Rightarrow> True | Creative c \<Rightarrow> True | _ \<Rightarrow> False))"

section \<open>replaceAuctionMacros on every JavaScript value\<close>



















section \<open>Templates and example data used to state the properties\<close>

text \<open>
  The single-pass reading of macro substitution, in the words of the specification: a
  template is cut into literal text and macro tokens, and every token stands for the
  value the response gives it.

  \<open>auction_value\<close> is the table of the specification's AuctionMacroSet, with the
  conversions of the code: a field that is missing (or falsy) gives the empty string,
  \<^verbatim>\<open>${AUCTION_ID}\<close> reads \<^verbatim>\<open>id\<close> and falls back on \<^verbatim>\<open>bidid\<close>, the price is converted
  to a string before it is tested, and \<^verbatim>\<open>${AUCTION_MBR}\<close> and \<^verbatim>\<open>${AUCTION_LOSS}\<close> are
  always empty.
\<close>

definition macro_names :: "string list" where
  "macro_names = [''${AUCTION_ID}'', ''${AUCTION_BID_ID}'', ''${AUCTION_IMP_ID}'',
     ''${AUCTION_SEAT_ID}'', ''${AUCTION_PRICE}'', ''${AUCTION_CURRENCY}'', ''${AUCTION_MBR}'',
     ''${AUCTION_AD_ID}'', ''${AUCTION_LOSS}'']"

definition field_text :: "json \<Rightarrow> string" where
  "field_text v = (if truthy v then to_string v else [])"

definition auction_value :: "bidResponse \<Rightarrow> seatbid \<Rightarrow> bid \<Rightarrow> string \<Rightarrow> string" where
  "auction_value resp sb b token =
     (if token = ''${AUCTION_ID}''
      then (if truthy (resp_id resp) then to_string (resp_id resp) else field_text (bidid resp))
      else if token = ''${AUCTION_BID_ID}'' then field_text (bid_id b)
      else if token = ''${AUCTION_IMP_ID}'' then field_text (impid b)
      else if token = ''${AUCTION_SEAT_ID}'' then field_text (seat sb)
      else if token = ''${AUCTION_PRICE}''
      then (case price b of Absent \<Rightarrow> [] | Null \<Rightarrow> [] | JBool x \<Rightarrow> to_string (JBool x)
            | JNumber x \<Rightarrow> to_string (JNumber x) | JString x \<Rightarrow> x)
      else if token = ''${AUCTION_CURRENCY}'' then field_text (cur resp)
      else if token = ''${AUCTION_AD_ID}'' then field_text (adid b)
      else [])"

text \<open>
  Text in which every dollar sign is followed by a character other than an opening
  brace: no macro token starts in it, and none can start at its end. A value in which
  every dollar sign is followed by a character other than \<^verbatim>\<open>$\<close>, \<^verbatim>\<open>&\<close>, a backtick, a
  quote and an opening brace is, besides, free of the replacement patterns of
  \<^verbatim>\<open>String.prototype.replace\<close>.
\<close>

fun plain_text :: "string \<Rightarrow> bool" where
  "plain_text [] = True"
| "plain_text [c] = (c \<noteq> CHR ''$'')"
| "plain_text (c # d # cs) = ((c \<noteq> CHR ''$'' \<or> d \<noteq> CHR 0x7B) \<and> plain_text (d # cs))"

fun plain_value :: "string \<Rightarrow> bool" where
  "plain_value [] = True"
| "plain_value [c] = (c \<noteq> CHR ''$'')"
| "plain_value (c # d # cs) =
     ((c \<noteq> CHR ''$'' \<or> d \<notin> set [CHR ''$'', CHR ''&'', CHR 0x60, CHR 0x27, CHR 0x7B])
      \<and> plain_value (d # cs))"

datatype segment = Lit string | Tok string

fun seg_text :: "segment \<Rightarrow> string" where
  "seg_text (Lit s) = s"
| "seg_text (Tok t) = t"

definition flatten :: "segment list \<Rightarrow> string" where
  "flatten segs = concat (map seg_text segs)"

text \<open>
  A piece of a template is well formed for a table of values when it is plain literal
  text, or one of the nine macro tokens whose value is plain.
\<close>

fun wf_seg :: "(string \<Rightarrow> string) \<Rightarrow> segment \<Rightarrow> bool" where
  "wf_seg f (Lit s) = plain_text s"
| "wf_seg f (Tok t) = (t \<in> set macro_names \<and> plain_value (f t))"

fun expand :: "(string \<Rightarrow> string) \<Rightarrow> segment \<Rightarrow> string" where
  "expand f (Lit s) = s"
| "expand f (Tok t) = f t"

text \<open>For the proofs: a piece whatever its value, and one pass on a piece.\<close>

fun seg_ok :: "segment \<Rightarrow> bool" where
  "seg_ok (Lit s) = plain_text s"
| "seg_ok (Tok t) = (t \<in> set macro_names)"

fun subst1 :: "string \<Rightarrow> string \<Rightarrow> segment \<Rightarrow> segment" where
  "subst1 t v (Lit s) = Lit s"
| "subst1 t v (Tok t') = (if t' = t then Lit v else Tok t')"

text \<open>The empty response \<^verbatim>\<open>{}\<close>, a bid with no property set, and responses built on them.\<close>

definition empty_response :: bidResponse where
  "empty_response =
     \<lparr>ad_type = Absent, resp_id = Absent, bidid = Absent, cur = Absent, seatbids = [],
      full_file_path = Absent, creative_type = Absent, brand_name = Absent, tracking = None\<rparr>"

definition empty_bid :: bid where
  "empty_bid =
     \<lparr>bid_id = Absent, impid = Absent, price = Absent, adid = Absent, adm = Absent,
      nurl = Absent, burl = Absent\<rparr>"

definition response_with_bid :: "bid \<Rightarrow> bidResponse" where
  "response_with_bid b = empty_response\<lparr>seatbids := [\<lparr>seat = Absent, bids = [b]\<rparr>]\<rparr>"

text \<open>\<^verbatim>\<open>{seatbid:[{bid:[{id:"b1",price:2.5}]}]}\<close>\<close>

definition example_response :: bidResponse where
  "example_response =
     response_with_bid (empty_bid\<lparr>bid_id := JString ''b1'', price := JNumber (JSNum False [2, 5] 1)\<rparr>)"

text \<open>
  The invariant behind the one-shot callback: an element has no tracker and has seen no
  call, or it is flagged and has exactly one tracker, every pending timer belongs to it,
  and the number of calls made is one if its \<^verbatim>\<open>hasTriggeredBillable\<close> is set and zero
  if not.
\<close>

definition tracked_once :: "element \<Rightarrow> bool" where
  "tracked_once el =
     (if trackers el = [] then \<not> viewabilityTracking el \<and> pending el = [] \<and> billable_calls el = []
      else viewabilityTracking el \<and> length (trackers el) = 1
           \<and> list_all (\<lambda>p. snd (snd p) = 0) (pending el)
           \<and> length (billable_calls el) = (if hasTriggeredBillable (trackers el ! 0) then 1 else 0))"

text \<open>
  The visibility timeline of the specification, with the reading of
  \<^verbatim>\<open>performance.now()\<close> at its first event as a parameter: intersecting at ratio 0.6,
  at ratio 0.4 after 400 ms, at ratio 0.6 after 500 ms.
\<close>

definition visible :: "real \<Rightarrow> entry" where
  "visible r = \<lparr>isIntersecting = True, intersectionRatio = r\<rparr>"

definition timeline :: "nat \<Rightarrow> (nat \<times> entry) list" where
  "timeline t0 = [(t0, visible 0.6), (t0 + 400, visible 0.4), (t0 + 500, visible 0.6)]"

text \<open>
  The negation of the test \<^verbatim>\<open>if (width && height && slot_id)\<close> of \<^verbatim>\<open>initialize\<close>.
\<close>

definition misconfigured :: "slotElement \<Rightarrow> bool" where
  "misconfigured el =
     (or_zero (parse_attribute (data_width el)) = 0
      \<or> or_zero (parse_attribute (data_height el)) = 0
      \<or> or_zero (parse_attribute (data_slot_id el)) = 0)"

text \<open>
  The texts of a data attribute, in the words of the amended description of
  misconfigured slots. An attribute is unusable when it is missing, or when its text is
  white space, an optional sign and then either no digit or a run of zeros that no
  further digit follows. It is usable when its text is white space, an optional sign and
  digits of which one is not zero. A placeholder is well configured when its three
  attributes are usable.
\<close>

definition optional_sign :: "nat list \<Rightarrow> bool" where
  "optional_sign sg = (sg = [] \<or> sg = [43] \<or> sg = [45])"

definition unusable :: "nat list option \<Rightarrow> bool" where
  "unusable a =
     (case a of
        None \<Rightarrow> True
      | Some s \<Rightarrow>
          (\<exists>ws sg zs rest.
             s = ws @ sg @ zs @ rest \<and> list_all is_space ws \<and> optional_sign sg
             \<and> list_all (\<lambda>c. c = 48) zs
             \<and> (rest = [] \<or> \<not> is_digit (hd rest))
             \<and> (sg = [] \<and> zs = [] \<longrightarrow>
                  rest = [] \<or> (\<not> is_space (hd rest) \<and> hd rest \<noteq> 43 \<and> hd rest \<noteq> 45))))"

definition usable :: "nat list option \<Rightarrow> bool" where
  "usable a =
     (\<exists>ws sg ds rest.
        a = Some (ws @ sg @ ds @ rest) \<and> list_all is_space ws \<and> optional_sign sg
        \<and> list_all is_digit ds \<and> list_ex (\<lambda>c. c \<noteq> 48) ds)"

definition well_configured :: "slotElement \<Rightarrow> bool" where
  "well_configured el = (usable (data_width el) \<and> usable (data_height el) \<and> usable (data_slot_id el))"

text \<open>For the proofs: the parts \<^verbatim>\<open>parseInt\<close> cuts a text into.\<close>

definition lead_space :: "nat list \<Rightarrow> nat list" where
  "lead_space s = takeWhile is_space s"

definition lead_sign :: "nat list \<Rightarrow> nat list" where
  "lead_sign s =
     (let t = dropWhile is_space s in if t \<noteq> [] \<and> (hd t = 45 \<or> hd t = 43) then [hd t] else [])"

definition after_sign :: "nat list \<Rightarrow> nat list" where
  "after_sign s =
     (let t = dropWhile is_space s in if t \<noteq> [] \<and> (hd t = 45 \<or> hd t = 43) then tl t else t)"

text \<open>Placeholders, a configuration, responses and environments for the worked cases.\<close>

definition placeholder :: "string option \<Rightarrow> string option \<Rightarrow> string option \<Rightarrow> slotElement" where
  "placeholder w h i =
     \<lparr>data_width = map_option utf16 w, data_height = map_option utf16 h,
      data_slot_id = map_option utf16 i, style_width = None,
      style_height = None, display_none = False, innerHTML = Original\<rparr>"

definition unset :: slotElement where
  "unset = placeholder None None None"

definition leaderboard :: slotElement where
  "leaderboard = placeholder (Some ''728'') (Some ''90'') (Some ''3'')"

definition leaderboard_slot :: slot where
  "leaderboard_slot = \<lparr>slot_id = 3, width = 728, height = 90\<rparr>"

definition three_slots :: "slotElement list" where
  "three_slots =
     [placeholder (Some ''300'') (Some ''250'') (Some ''1''),
      placeholder (Some ''300'') (Some ''600'') (Some ''2''),
      placeholder (Some ''728'') (Some ''90'') (Some ''3'')]"

text \<open>
  A placeholder whose slot id starts with a no-break space (code unit 160), and five
  placeholders of which the second and the fourth are well configured.
\<close>

definition nbsp_slot :: slotElement where
  "nbsp_slot =
     (placeholder (Some ''300'') (Some '' 250px'') None)\<lparr>data_slot_id := Some (0xA0 # utf16 ''42'')\<rparr>"

definition mixed_slots :: "slotElement list" where
  "mixed_slots =
     [placeholder (Some ''300'') (Some ''0'') (Some ''7''), leaderboard,
      placeholder (Some ''300'') (Some ''250'') None, nbsp_slot,
      placeholder (Some ''wide'') (Some ''90'') (Some ''4'')]"

definition example_config :: config where
  "example_config =
     \<lparr>geo = ''IND'', ipv6 = ''2001:0db8:85a3:0000:0000:8a2e:0370:7334'', deviceType = 2,
      deviceMake = ''Unknown'', deviceModel = ''Unknown'', deviceOs = ''Unknown'',
      deviceOsVersion = ''Unknown'', deviceCarrier = ''unknown''\<rparr>"

definition brand_response :: bidResponse where
  "brand_response =
     empty_response\<lparr>ad_type := JString ''brand'', full_file_path := JString ''https://cdn.example/a.png''\<rparr>"

definition testing_response :: bidResponse where
  "testing_response = empty_response\<lparr>ad_type := JString ''testing_pid''\<rparr>"

definition no_markup :: parsed_markup where
  "no_markup = \<lparr>anchor_href = None, img_src = None, img_onload = None\<rparr>"

text \<open>
  A page on which \<^verbatim>\<open>window.adSystemConfig\<close> is there after the first wait, with no
  \<^verbatim>\<open>pid\<close> in the URL, and an endpoint that treats the request of the placeholder at
  position \<open>i\<close> as \<open>b i\<close> says.
\<close>

definition example_env :: "(nat \<Rightarrow> fetch_behaviour) \<Rightarrow> env" where
  "example_env b =
     \<lparr>config_after = (\<lambda>n. if n = 0 then None else Some example_config), userAgent = ''Mozilla/5.0'',
      query_pid = None, bidder = (\<lambda>i req. b i), dom_parser = (\<lambda>m. no_markup)\<rparr>"

text \<open>The bid request of the second placeholder throws; the others get a brand creative.\<close>

definition second_throws :: "nat \<Rightarrow> fetch_behaviour" where
  "second_throws i = (if i = 1 then NetworkFailure else Response 200 (Json (Some brand_response)))"

definition init_timeout_of :: "net_call \<Rightarrow> nat option" where
  "init_timeout_of c = (case c of BidPost u i \<Rightarrow> init_timeout i | Beacon u \<Rightarrow> None)"

text \<open>
  An ORTB bid whose markup has an anchor and an image but no \<^verbatim>\<open>onload\<close> attribute, with
  a win notice, and the page that receives it.
\<close>

definition plain_markup :: parsed_markup where
  "plain_markup = \<lparr>anchor_href = Some ''https://x/'', img_src = Some ''https://y/'', img_onload = None\<rparr>"

definition ortb_bid :: bid where
  "ortb_bid = empty_bid\<lparr>bid_id := JString ''b1'', price := JNumber (JSNum False [2, 5] 1),
     adm := JString ''<a href=https://x><img src=https://y></a>'',
     nurl := JString ''https://win.example/n?p=${AUCTION_PRICE}''\<rparr>"

definition ortb_response :: bidResponse where
  "ortb_response = (response_with_bid ortb_bid)\<lparr>ad_type := JString ''ortb'', resp_id := JString ''r1''\<rparr>"

text \<open>An ORTB response whose markup holds no image.\<close>

definition imageless_bid :: bid where
  "imageless_bid = empty_bid\<lparr>bid_id := JString ''b2'', adm := JString ''<p>no creative</p>''\<rparr>"

definition imageless_response :: bidResponse where
  "imageless_response = (response_with_bid imageless_bid)\<lparr>ad_type := JString ''ortb''\<rparr>"

definition ortb_env :: env where
  "ortb_env = (example_env (\<lambda>i. Response 200 (Json (Some ortb_response))))\<lparr>dom_parser := (\<lambda>m. plain_markup)\<rparr>"

definition plain_urls :: urls where
  "plain_urls = \<lparr>clickUrl = Some ''https://x/'', imageUrl = Some ''https://y/'', impressionUrl = None\<rparr>"

text \<open>
  A response whose values hold \<^verbatim>\<open>$\<close>: a bid id \<^verbatim>\<open>a$b$1\<close>, an ad id \<^verbatim>\<open>$&\<close>
  and a response id that is the text of another macro.
\<close>

definition dollar_response :: bidResponse where
  "dollar_response =
     (response_with_bid
        (empty_bid\<lparr>bid_id := JString ''a$b$1'', price := JNumber (JSNum False [2, 5] 1),
           adid := JString ''$&''\<rparr>))\<lparr>resp_id := JString ''${AUCTION_BID_ID}''\<rparr>"





section \<open>Properties of macro substitution\<close>

lemma macros_names: "map fst (macros resp sb b) = macro_names"
  by (simp add: macros_def macro_names_def)

lemma macros_values:
  "t \<in> set macro_names \<Longrightarrow> map_of (macros resp sb b) t = Some (auction_value resp sb b t)"
  by (auto simp: macro_names_def macros_def auction_value_def field_text_def js_or_def price_string_def
      split: json.splits)

lemma pattern_literal_escape: "CHR 0x5C \<notin> set s \<Longrightarrow> pattern_literal (escape_dollar s) = s"
proof (induction s)
  case Nil
  then show ?case by simp
next
  case (Cons c cs)
  then show ?case by (cases "escape_dollar cs") auto
qed

lemma plain_value_text: "plain_value v \<Longrightarrow> plain_text v"
  by (induction v rule: plain_value.induct) auto

lemma GetSubstitution_plain: "plain_value v \<Longrightarrow> GetSubstitution m p a v = v"
  by (induction m p a v rule: GetSubstitution.induct) auto

lemma dollar_free_plain: "CHR ''$'' \<notin> set s \<Longrightarrow> plain_text s"
  by (induction s rule: plain_text.induct) auto

lemma replace_skip_plain:
  "plain_text s \<Longrightarrow>
   replace_global (CHR ''$'' # CHR 0x7B # u) v pre (s @ rest)
     = s @ replace_global (CHR ''$'' # CHR 0x7B # u) v (pre @ s) rest"
proof (induction s arbitrary: pre rule: plain_text.induct)
  case 1
  then show ?case by simp
next
  case (2 c)
  then show ?case by simp
next
  case (3 c d cs)
  have step: "replace_global (CHR ''$'' # CHR 0x7B # u) v pre ((c # d # cs) @ rest)
      = c # replace_global (CHR ''$'' # CHR 0x7B # u) v (pre @ [c]) ((d # cs) @ rest)"
  proof (cases "c = CHR ''$''")
    case True
    then have "d \<noteq> CHR 0x7B" using "3.prems" by simp
    then show ?thesis by simp
  next
    case False
    then show ?thesis by simp
  qed
  show ?case using step "3.IH"[of "pre @ [c]"] "3.prems" by simp
qed

lemma replace_at_token:
  assumes "tok \<noteq> []" "plain_value v"
  shows "replace_global tok v pre (tok @ rest) = v @ replace_global tok v (pre @ tok) rest"
proof -
  obtain c cs where tc: "tok = c # cs" using assms(1) by (cases tok) auto
  have "replace_global tok v pre (c # (cs @ rest)) =
        GetSubstitution tok pre (drop (length tok) (c # (cs @ rest))) v
          @ replace_global tok v (pre @ tok) (drop (length tok) (c # (cs @ rest)))"
    using tc by (subst replace_global.simps) simp
  then show ?thesis using tc assms(2) by (simp add: GetSubstitution_plain)
qed

lemma replace_other_token:
  assumes "CHR ''$'' \<notin> set u'"
    "\<not> prefix (CHR ''$'' # CHR 0x7B # u) (CHR ''$'' # CHR 0x7B # u')"
    "\<not> prefix (CHR ''$'' # CHR 0x7B # u') (CHR ''$'' # CHR 0x7B # u)"
  shows "replace_global (CHR ''$'' # CHR 0x7B # u) v pre ((CHR ''$'' # CHR 0x7B # u') @ rest) =
         (CHR ''$'' # CHR 0x7B # u')
           @ replace_global (CHR ''$'' # CHR 0x7B # u) v (pre @ (CHR ''$'' # CHR 0x7B # u')) rest"
proof -
  let ?t = "CHR ''$'' # CHR 0x7B # u"
  have np: "\<not> prefix ?t (CHR ''$'' # CHR 0x7B # u' @ rest)"
  proof
    assume "prefix ?t (CHR ''$'' # CHR 0x7B # u' @ rest)"
    moreover have "prefix (CHR ''$'' # CHR 0x7B # u') (CHR ''$'' # CHR 0x7B # u' @ rest)" by simp
    ultimately show False using assms(2,3) prefix_same_cases by blast
  qed
  have np2: "\<not> prefix ?t (CHR 0x7B # u' @ rest)" by simp
  have "replace_global ?t v pre (CHR ''$'' # CHR 0x7B # u' @ rest) =
        CHR ''$'' # CHR 0x7B # replace_global ?t v (pre @ [CHR ''$'', CHR 0x7B]) (u' @ rest)"
    using np np2 by simp
  then show ?thesis
    using replace_skip_plain[OF dollar_free_plain[OF assms(1)], of u v "pre @ [CHR ''$'', CHR 0x7B]" rest]
    by simp
qed

lemma names_shape:
  "t \<in> set macro_names \<Longrightarrow> \<exists>u. t = CHR ''$'' # CHR 0x7B # u \<and> CHR ''$'' \<notin> set u"
  by (auto simp: macro_names_def)

lemma names_braces:
  "t \<in> set macro_names \<Longrightarrow> t \<noteq> [] \<and> last t = CHR 0x7D \<and> CHR 0x7D \<notin> set (butlast t)"
  by (auto simp: macro_names_def)

lemma prefix_closed_by_last:
  assumes "prefix t t'" "t \<noteq> []" "last t \<notin> set (butlast t')"
  shows "t = t'"
proof -
  obtain z where z: "t' = t @ z" using assms(1) by (auto simp: prefix_def)
  show ?thesis
  proof (cases z)
    case Nil
    then show ?thesis using z by simp
  next
    case (Cons a as)
    then have "butlast t' = t @ butlast z" using z by (simp add: butlast_append)
    moreover have "last t \<in> set t" using assms(2) by simp
    ultimately show ?thesis using assms(3) by simp
  qed
qed

lemma names_prefix_free:
  "t \<in> set macro_names \<Longrightarrow> t' \<in> set macro_names \<Longrightarrow> prefix t t' \<Longrightarrow> t = t'"
  using names_braces[of t] names_braces[of t'] prefix_closed_by_last[of t t'] by simp

lemma names_no_backslash: "t \<in> set macro_names \<Longrightarrow> CHR 0x5C \<notin> set t"
  by (auto simp: macro_names_def)

lemma replace_segments:
  assumes "t \<in> set macro_names" "Tok t \<in> set segs \<longrightarrow> plain_value v" "list_all seg_ok segs"
  shows "replace_global t v pre (flatten segs) = flatten (map (subst1 t v) segs)"
  using assms(2,3)
proof (induction segs arbitrary: pre)
  case Nil
  then show ?case by (simp add: flatten_def)
next
  case (Cons seg segs)
  obtain u where t: "t = CHR ''$'' # CHR 0x7B # u" "CHR ''$'' \<notin> set u"
    using names_shape[OF assms(1)] by blast
  have IH: "\<And>pre. replace_global t v pre (flatten segs) = flatten (map (subst1 t v) segs)"
    using Cons by simp
  show ?case
  proof (cases seg)
    case (Lit s)
    then have "plain_text s" using Cons.prems by simp
    then show ?thesis using Lit t IH by (simp add: flatten_def replace_skip_plain)
  next
    case (Tok t')
    then have mem: "t' \<in> set macro_names" using Cons.prems by simp
    show ?thesis
    proof (cases "t' = t")
      case True
      then have "plain_value v" using Tok Cons.prems by simp
      then have "replace_global t v pre (t @ flatten segs) = v @ replace_global t v (pre @ t) (flatten segs)"
        using t(1) by (intro replace_at_token) auto
      then show ?thesis using True Tok IH by (simp add: flatten_def)
    next
      case False
      obtain u' where t': "t' = CHR ''$'' # CHR 0x7B # u'" "CHR ''$'' \<notin> set u'"
        using names_shape[OF mem] by blast
      have "\<not> prefix t t'" "\<not> prefix t' t"
        using names_prefix_free[OF assms(1) mem] names_prefix_free[OF mem assms(1)] False by auto
      then have "replace_global t v pre (t' @ flatten segs) = t' @ replace_global t v (pre @ t') (flatten segs)"
        using replace_other_token[where u = u and u' = u' and v = v and pre = pre and rest = "flatten segs"]
          t t' by simp
      then show ?thesis using False Tok IH by (simp add: flatten_def)
    qed
  qed
qed

lemma js_replace_segments:
  assumes "t \<in> set macro_names" "Tok t \<in> set segs \<longrightarrow> plain_value v" "list_all seg_ok segs"
  shows "js_replace t v (flatten segs) = flatten (map (subst1 t v) segs)"
  using assms by (simp add: js_replace_def pattern_literal_escape names_no_backslash replace_segments)

lemma seg_ok_subst1: "seg = Tok t \<longrightarrow> plain_value v \<Longrightarrow> seg_ok seg \<Longrightarrow> seg_ok (subst1 t v seg)"
  by (cases seg) (auto simp: plain_value_text)

lemma Tok_subst1: "Tok m \<in> set (map (subst1 t v) segs) \<Longrightarrow> Tok m \<in> set segs"
proof -
  assume "Tok m \<in> set (map (subst1 t v) segs)"
  then obtain seg where seg: "seg \<in> set segs" "subst1 t v seg = Tok m" by auto
  from seg(2) have "seg = Tok m" by (cases seg) (auto split: if_splits)
  with seg(1) show ?thesis by simp
qed

lemma foldl_segments:
  assumes "set (map fst ms) \<subseteq> set macro_names"
    "list_all (\<lambda>(m, v). Tok m \<in> set segs \<longrightarrow> plain_value v) ms"
    "list_all seg_ok segs"
  shows "foldl (\<lambda>acc (macro, v). js_replace macro v acc) (flatten segs) ms =
         flatten (map (\<lambda>seg. foldl (\<lambda>sg (t, v). subst1 t v sg) seg ms) segs)"
  using assms
proof (induction ms arbitrary: segs)
  case Nil
  then show ?case by simp
next
  case (Cons mv ms)
  obtain m v where mv: "mv = (m, v)" by (cases mv)
  have m: "m \<in> set macro_names" and v: "Tok m \<in> set segs \<longrightarrow> plain_value v"
    using Cons.prems mv by auto
  have ok': "list_all seg_ok (map (subst1 m v) segs)"
    using Cons.prems(3) v by (auto simp: list_all_iff intro!: seg_ok_subst1)
  have vals': "list_all (\<lambda>(m', v'). Tok m' \<in> set (map (subst1 m v) segs) \<longrightarrow> plain_value v') ms"
    using Cons.prems(2) Tok_subst1[of _ m v segs] by (auto simp: list_all_iff)
  have "foldl (\<lambda>acc (macro, v). js_replace macro v acc) (flatten (map (subst1 m v) segs)) ms =
        flatten (map (\<lambda>seg. foldl (\<lambda>sg (t, v). subst1 t v sg) seg ms) (map (subst1 m v) segs))"
    using Cons.prems(1) ok' vals' by (intro Cons.IH) auto
  then show ?case
    using mv js_replace_segments[OF m v Cons.prems(3)] by (simp add: comp_def)
qed

lemma foldl_subst1_Lit: "foldl (\<lambda>sg (t, v). subst1 t v sg) (Lit s) ms = Lit s"
  by (induction ms) auto

lemma foldl_subst1_text:
  "seg_text (foldl (\<lambda>sg (t, v). subst1 t v sg) seg ms)
   = (case seg of Lit s \<Rightarrow> s | Tok t \<Rightarrow> (case map_of ms t of Some v \<Rightarrow> v | None \<Rightarrow> t))"
proof (induction ms)
  case Nil
  then show ?case by (cases seg) auto
next
  case (Cons mv ms)
  then show ?case by (cases seg; cases mv) (auto simp: foldl_subst1_Lit)
qed

lemma foldl_replace_Nil: "foldl (\<lambda>acc (macro, v). js_replace macro v acc) [] ms = []"
  by (induction ms) (auto simp: js_replace_def)

lemma substitute_segments:
  assumes "first_bid (Some resp) = Some b" "first_seatbid (Some resp) = Some sb"
    "list_all (wf_seg (auction_value resp sb b)) segs"
  shows "replaceAuctionMacros (flatten segs) (Some resp) =
         concat (map (expand (auction_value resp sb b)) segs)"
proof -
  let ?ms = "macros resp sb b"
  let ?f = "auction_value resp sb b"
  have ok: "list_all seg_ok segs"
  proof -
    have "seg_ok seg" if "wf_seg ?f seg" for seg using that by (cases seg) auto
    then show ?thesis using assms(3) by (auto simp: list_all_iff)
  qed
  have vals: "list_all (\<lambda>(m, v). Tok m \<in> set segs \<longrightarrow> plain_value v) ?ms"
  proof -
    have "plain_value v" if mv: "(m, v) \<in> set ?ms" and tk: "Tok m \<in> set segs" for m v
    proof -
      have w: "m \<in> set macro_names \<and> plain_value (?f m)"
        using tk assms(3) by (auto simp: list_all_iff)
      have "distinct (map fst ?ms)" by (simp add: macros_names macro_names_def)
      then have "map_of ?ms m = Some v" using mv by simp
      then show ?thesis using w macros_values[of m resp sb b] by simp
    qed
    then show ?thesis by (auto simp: list_all_iff)
  qed
  have texts: "seg_text (foldl (\<lambda>sg (t, v). subst1 t v sg) seg ?ms) = expand ?f seg"
    if "seg \<in> set segs" for seg
  proof (cases seg)
    case (Lit s)
    then show ?thesis by (simp add: foldl_subst1_text)
  next
    case (Tok t)
    then have "t \<in> set macro_names" using that assms(3) by (auto simp: list_all_iff)
    then show ?thesis using Tok by (simp add: foldl_subst1_text macros_values)
  qed
  have fold: "foldl (\<lambda>acc (macro, v). js_replace macro v acc) (flatten segs) ?ms =
              concat (map (expand ?f) segs)"
    using foldl_segments[of ?ms segs] ok vals texts
    by (simp add: macros_names flatten_def comp_def cong: map_cong)
  show ?thesis
  proof (cases "flatten segs = []")
    case True
    then show ?thesis using fold assms(1,2) foldl_replace_Nil[of ?ms]
      by (simp add: replaceAuctionMacros_def)
  next
    case False
    then show ?thesis using fold assms(1,2) by (simp add: replaceAuctionMacros_def)
  qed
qed

lemma js_replace_Nil: "js_replace m v [] = []"
  by (simp add: js_replace_def)

lemma nine_passes:
  assumes "first_bid (Some resp) = Some b" "first_seatbid (Some resp) = Some sb"
  shows "replaceAuctionMacros url (Some resp) =
     js_replace ''${AUCTION_LOSS}'' []
      (js_replace ''${AUCTION_AD_ID}'' (auction_value resp sb b ''${AUCTION_AD_ID}'')
        (js_replace ''${AUCTION_MBR}'' []
          (js_replace ''${AUCTION_CURRENCY}'' (auction_value resp sb b ''${AUCTION_CURRENCY}'')
            (js_replace ''${AUCTION_PRICE}'' (auction_value resp sb b ''${AUCTION_PRICE}'')
              (js_replace ''${AUCTION_SEAT_ID}'' (auction_value resp sb b ''${AUCTION_SEAT_ID}'')
                (js_replace ''${AUCTION_IMP_ID}'' (auction_value resp sb b ''${AUCTION_IMP_ID}'')
                  (js_replace ''${AUCTION_BID_ID}'' (auction_value resp sb b ''${AUCTION_BID_ID}'')
                    (js_replace ''${AUCTION_ID}'' (auction_value resp sb b ''${AUCTION_ID}'')
                      url))))))))"
  using assms
  by (auto simp: replaceAuctionMacros_def macros_def auction_value_def field_text_def js_or_def
      price_string_def js_replace_Nil split: json.splits)

lemma single_token:
  assumes "first_bid (Some resp) = Some b" "first_seatbid (Some resp) = Some sb"
    "t \<in> set macro_names" "auction_value resp sb b t = []"
  shows "replaceAuctionMacros t (Some resp) = []"
  using substitute_segments[OF assms(1,2), of "[Tok t]"] assms(3,4) by (simp add: flatten_def)

lemma absent_values:
  "resp_id resp = Absent \<and> bidid resp = Absent \<Longrightarrow> auction_value resp sb b ''${AUCTION_ID}'' = []"
  "bid_id b = Absent \<Longrightarrow> auction_value resp sb b ''${AUCTION_BID_ID}'' = []"
  "impid b = Absent \<Longrightarrow> auction_value resp sb b ''${AUCTION_IMP_ID}'' = []"
  "seat sb = Absent \<Longrightarrow> auction_value resp sb b ''${AUCTION_SEAT_ID}'' = []"
  "price b = Absent \<Longrightarrow> auction_value resp sb b ''${AUCTION_PRICE}'' = []"
  "cur resp = Absent \<Longrightarrow> auction_value resp sb b ''${AUCTION_CURRENCY}'' = []"
  "adid b = Absent \<Longrightarrow> auction_value resp sb b ''${AUCTION_AD_ID}'' = []"
  "auction_value resp sb b ''${AUCTION_MBR}'' = []"
  "auction_value resp sb b ''${AUCTION_LOSS}'' = []"
  by (simp_all add: auction_value_def field_text_def)

text \<open>
  C6, as the code has it. \<^verbatim>\<open>replaceAuctionMacros\<close> makes nine replacement passes, one per
  macro in the order of the \<^verbatim>\<open>macros\<close> object, each over the result of the pass before,
  with the value that \<open>auction_value\<close> gives the macro: the field of the response as a
  string, and the empty string for a field that is missing. Every pass ends and there is
  no iteration to a fixed point. For a template made of macro tokens and of pieces of
  text in each of which every dollar sign is followed, within the piece, by a character
  other than an opening brace, and a response in which the value of every token the
  template uses has each dollar sign followed, within the value, by a character other
  than \<^verbatim>\<open>$\<close>, \<^verbatim>\<open>&\<close>, a backtick, a quote and an opening brace, the result is the
  template with every occurrence of every token replaced by its value, taken literally.
  A token alone, its field missing, becomes the empty string.
\<close>

theorem replaceAuctionMacros_wellformed_template:
  assumes "first_bid (Some resp) = Some b" "first_seatbid (Some resp) = Some sb"
  shows
   "replaceAuctionMacros url (Some resp) =
     js_replace ''${AUCTION_LOSS}'' []
      (js_replace ''${AUCTION_AD_ID}'' (auction_value resp sb b ''${AUCTION_AD_ID}'')
        (js_replace ''${AUCTION_MBR}'' []
          (js_replace ''${AUCTION_CURRENCY}'' (auction_value resp sb b ''${AUCTION_CURRENCY}'')
            (js_replace ''${AUCTION_PRICE}'' (auction_value resp sb b ''${AUCTION_PRICE}'')
              (js_replace ''${AUCTION_SEAT_ID}'' (auction_value resp sb b ''${AUCTION_SEAT_ID}'')
                (js_replace ''${AUCTION_IMP_ID}'' (auction_value resp sb b ''${AUCTION_IMP_ID}'')
                  (js_replace ''${AUCTION_BID_ID}'' (auction_value resp sb b ''${AUCTION_BID_ID}'')
                    (js_replace ''${AUCTION_ID}'' (auction_value resp sb b ''${AUCTION_ID}'')
                      url))))))))
    \<and> (list_all (wf_seg (auction_value resp sb b)) segs \<longrightarrow>
         replaceAuctionMacros (flatten segs) (Some resp)
           = concat (map (expand (auction_value resp sb b)) segs))
    \<and> (resp_id resp = Absent \<and> bidid resp = Absent \<longrightarrow>
         replaceAuctionMacros ''${AUCTION_ID}'' (Some resp) = [])
    \<and> (bid_id b = Absent \<longrightarrow> replaceAuctionMacros ''${AUCTION_BID_ID}'' (Some resp) = [])
    \<and> (impid b = Absent \<longrightarrow> replaceAuctionMacros ''${AUCTION_IMP_ID}'' (Some resp) = [])
    \<and> (seat sb = Absent \<longrightarrow> replaceAuctionMacros ''${AUCTION_SEAT_ID}'' (Some resp) = [])
    \<and> (price b = Absent \<longrightarrow> replaceAuctionMacros ''${AUCTION_PRICE}'' (Some resp) = [])
    \<and> (cur resp = Absent \<longrightarrow> replaceAuctionMacros ''${AUCTION_CURRENCY}'' (Some resp) = [])
    \<and> (adid b = Absent \<longrightarrow> replaceAuctionMacros ''${AUCTION_AD_ID}'' (Some resp) = [])
    \<and> replaceAuctionMacros ''${AUCTION_MBR}'' (Some resp) = []
    \<and> replaceAuctionMacros ''${AUCTION_LOSS}'' (Some resp) = []"
proof -
  note one = single_token[OF assms]
  have names: "''${AUCTION_ID}'' \<in> set macro_names" "''${AUCTION_BID_ID}'' \<in> set macro_names"
    "''${AUCTION_IMP_ID}'' \<in> set macro_names" "''${AUCTION_SEAT_ID}'' \<in> set macro_names"
    "''${AUCTION_PRICE}'' \<in> set macro_names" "''${AUCTION_CURRENCY}'' \<in> set macro_names"
    "''${AUCTION_AD_ID}'' \<in> set macro_names" "''${AUCTION_MBR}'' \<in> set macro_names"
    "''${AUCTION_LOSS}'' \<in> set macro_names"
    by (simp_all add: macro_names_def)
  show ?thesis
    apply (intro conjI impI)
              apply (rule nine_passes[OF assms])
             apply (rule substitute_segments[OF assms], assumption)
            apply (rule one[OF names(1)], erule absent_values(1))
           apply (rule one[OF names(2)], erule absent_values(2))
          apply (rule one[OF names(3)], erule absent_values(3))
         apply (rule one[OF names(4)], erule absent_values(4))
        apply (rule one[OF names(5)], erule absent_values(5))
       apply (rule one[OF names(6)], erule absent_values(6))
      apply (rule one[OF names(7)], erule absent_values(7))
     apply (rule one[OF names(8)], rule absent_values(8))
    apply (rule one[OF names(9)], rule absent_values(9))
    done
qed

lemmas example_defs =
  example_response_def response_with_bid_def empty_response_def empty_bid_def

lemmas substitute_defs =
  replaceAuctionMacros_def first_seatbid_def first_bid_def macros_def js_replace_def js_or_def
  price_string_def number_to_string_def is_zero_def digit_char_def

theorem replaceAuctionMacros_wellformed_template_witness:
  "first_bid (Some dollar_response) \<noteq> None
   \<and> first_seatbid (Some dollar_response) \<noteq> None
   \<and> replaceAuctionMacros ''cost $5: ${AUCTION_BID_ID}/${AUCTION_PRICE}${AUCTION_CURRENCY}''
        (Some dollar_response) = ''cost $5: a$b$1/2.5''
   \<and> cur dollar_response = Absent
   \<and> replaceAuctionMacros ''${AUCTION_CURRENCY}'' (Some dollar_response) = []"
proof -
  let ?b = "empty_bid\<lparr>bid_id := JString ''a$b$1'', price := JNumber (JSNum False [2, 5] 1),
           adid := JString ''$&''\<rparr>"
  let ?sb = "\<lparr>seat = Absent, bids = [?b]\<rparr>"
  let ?segs = "[Lit ''cost $5: '', Tok ''${AUCTION_BID_ID}'', Lit ''/'', Tok ''${AUCTION_PRICE}'',
        Tok ''${AUCTION_CURRENCY}'']"
  let ?f = "auction_value dollar_response ?sb ?b"
  have b: "first_bid (Some dollar_response) = Some ?b"
    by (simp add: first_bid_def first_seatbid_def dollar_response_def example_defs)
  have sb: "first_seatbid (Some dollar_response) = Some ?sb"
    by (simp add: first_seatbid_def dollar_response_def example_defs)
  have vals: "?f ''${AUCTION_BID_ID}'' = ''a$b$1''" "?f ''${AUCTION_PRICE}'' = ''2.5''"
    "?f ''${AUCTION_CURRENCY}'' = []"
    by (simp_all add: auction_value_def field_text_def dollar_response_def example_defs
        number_to_string_def is_zero_def digit_char_def)
  have wf: "list_all (wf_seg ?f) ?segs"
    by (simp add: vals) (simp add: macro_names_def)
  have c: "cur dollar_response = Absent"
    by (simp add: dollar_response_def example_defs)
  note inst = replaceAuctionMacros_wellformed_template[OF b sb, of "[]" ?segs]
  have "replaceAuctionMacros (flatten ?segs) (Some dollar_response) = concat (map (expand ?f) ?segs)"
    using inst wf by blast
  then have r: "replaceAuctionMacros ''cost $5: ${AUCTION_BID_ID}/${AUCTION_PRICE}${AUCTION_CURRENCY}''
        (Some dollar_response) = ''cost $5: a$b$1/2.5''"
    by (simp add: flatten_def vals)
  have e: "replaceAuctionMacros ''${AUCTION_CURRENCY}'' (Some dollar_response) = []"
    using inst c by blast
  show ?thesis using b sb r c e by simp
qed

text \<open>
  C6 as stated fails in three ways. A value is not taken literally: \<^verbatim>\<open>$&\<close> in a bid id
  is expanded to the matched token. A token inside a substituted value is substituted by
  a later pass. And a token that only comes into being when an earlier pass removes a
  token is substituted too.
\<close>

theorem replaceAuctionMacros_not_single_literal_pass:
  "replaceAuctionMacros ''id=${AUCTION_BID_ID}''
     (Some (response_with_bid (empty_bid\<lparr>bid_id := JString ''a$&b''\<rparr>)))
     = ''id=a${AUCTION_BID_ID}b''
   \<and> replaceAuctionMacros ''id=${AUCTION_BID_ID}''
     (Some (response_with_bid (empty_bid\<lparr>bid_id := JString ''a$&b''\<rparr>)))
     \<noteq> ''id=a$&b''
   \<and> replaceAuctionMacros ''${AUCTION_ID}''
     (Some (example_response\<lparr>resp_id := JString ''${AUCTION_BID_ID}''\<rparr>)) = ''b1''
   \<and> replaceAuctionMacros ''${AUCTION_ID}''
     (Some (example_response\<lparr>resp_id := JString ''${AUCTION_BID_ID}''\<rparr>)) \<noteq> ''${AUCTION_BID_ID}''
   \<and> replaceAuctionMacros ''$${AUCTION_MBR}{AUCTION_LOSS}'' (Some example_response) = []
   \<and> replaceAuctionMacros ''$${AUCTION_MBR}{AUCTION_LOSS}'' (Some example_response)
     \<noteq> ''${AUCTION_LOSS}''"
  by (simp add: substitute_defs example_defs)

text \<open>
  C7, as the code has it. The worked example gives \<^verbatim>\<open>price=2.5&id=b1\<close>. The template
  \<^verbatim>\<open>x=${AUCTION_MBR}\<close> becomes \<^verbatim>\<open>x=\<close> for every response that carries a bid
  payload, whatever its values; for a response without one it is returned as it is.
\<close>

theorem substitute_examples:
  "replaceAuctionMacros ''price=${AUCTION_PRICE}&id=${AUCTION_BID_ID}'' (Some example_response)
     = ''price=2.5&id=b1''
   \<and> (first_bid r \<noteq> None \<longrightarrow> replaceAuctionMacros ''x=${AUCTION_MBR}'' r = ''x='')
   \<and> (first_bid r = None \<longrightarrow> replaceAuctionMacros ''x=${AUCTION_MBR}'' r = ''x=${AUCTION_MBR}'')"
proof (intro conjI impI)
  show "replaceAuctionMacros ''price=${AUCTION_PRICE}&id=${AUCTION_BID_ID}'' (Some example_response)
     = ''price=2.5&id=b1''"
    by (simp add: substitute_defs example_defs)
next
  assume "first_bid r \<noteq> None"
  then show "replaceAuctionMacros ''x=${AUCTION_MBR}'' r = ''x=''"
    by (auto simp: replaceAuctionMacros_def first_seatbid_def first_bid_def macros_def
        js_replace_def split: option.splits list.splits)
next
  assume "first_bid r = None"
  then show "replaceAuctionMacros ''x=${AUCTION_MBR}'' r = ''x=${AUCTION_MBR}''"
    by (auto simp: replaceAuctionMacros_def split: option.splits)
qed

theorem substitute_examples_witness:
  "first_bid (Some example_response) \<noteq> None
   \<and> replaceAuctionMacros ''x=${AUCTION_MBR}'' (Some example_response) = ''x=''
   \<and> first_bid (Some empty_response) = None
   \<and> replaceAuctionMacros ''x=${AUCTION_MBR}'' (Some empty_response) = ''x=${AUCTION_MBR}''"
  using substitute_examples[of "Some example_response"] substitute_examples[of "Some empty_response"]
  by (simp add: first_bid_def first_seatbid_def example_defs)

text \<open>
  C7 as stated fails for a response without a bid payload: for the empty response the
  template comes back unchanged.
\<close>

theorem substitute_mbr_without_bid:
  "replaceAuctionMacros ''x=${AUCTION_MBR}'' (Some empty_response) \<noteq> ''x=''"
  by (simp add: replaceAuctionMacros_def first_bid_def first_seatbid_def empty_response_def)













section \<open>Properties of viewability tracking\<close>

lemma tracked_once_new: "tracked_once new_element"
  by (simp add: tracked_once_def new_element_def)

lemma tracked_once_setup: "tracked_once el \<Longrightarrow> tracked_once (setupViewabilityTracking cb el)"
  by (cases "trackers el = []") (auto simp: tracked_once_def setupViewabilityTracking_def)

lemma list_all_clearTimeout: "list_all P ps \<Longrightarrow> list_all P (clearTimeout h ps)"
  by (cases h) (auto simp: clearTimeout_def list_all_iff)

lemma tracked_once_observer:
  assumes "tracked_once el" "trackers el \<noteq> []"
  shows "tracked_once (observer_callback now e 0 el)"
proof -
  obtain t where t: "trackers el = [t]"
    using assms by (cases "trackers el") (auto simp: tracked_once_def)
  show ?thesis
    using assms t by (auto simp: tracked_once_def observer_callback_def Let_def list_all_clearTimeout)
qed

lemma tracked_once_intersection:
  assumes "tracked_once el"
  shows "tracked_once (intersection_change now e el)"
proof (cases "trackers el")
  case Nil
  then show ?thesis using assms by (simp add: intersection_change_def)
next
  case (Cons t ts)
  then have one: "trackers el = [t]" using assms by (auto simp: tracked_once_def)
  then show ?thesis
    using assms tracked_once_observer[of el now e] by (simp add: intersection_change_def)
qed

lemma tracked_once_timer:
  assumes "tracked_once el"
  shows "tracked_once (timer_expires now h el)"
proof (cases "find (\<lambda>p. fst p = h) (pending el)")
  case None
  then show ?thesis using assms by (simp add: timer_expires_def)
next
  case (Some q)
  obtain h' due i where q: "q = (h', due, i)" by (cases q)
  have mem: "q \<in> set (pending el)" using Some by (auto simp: find_Some_iff)
  then have ne: "trackers el \<noteq> []" using assms by (auto simp: tracked_once_def)
  then obtain t where t: "trackers el = [t]"
    using assms by (cases "trackers el") (auto simp: tracked_once_def)
  have i0: "i = 0" using mem q assms ne by (auto simp: tracked_once_def list_all_iff)
  show ?thesis
    using assms Some q i0 t
    by (auto simp: tracked_once_def timer_expires_def timeout_callback_def Let_def list_all_iff)
qed

lemma tracked_once_unload:
  assumes "tracked_once el"
  shows "tracked_once (beforeunload el)"
proof (cases "trackers el")
  case Nil
  then show ?thesis using assms by (simp add: beforeunload_def)
next
  case (Cons t ts)
  then have one: "trackers el = [t]" using assms by (auto simp: tracked_once_def)
  then show ?thesis
    using assms by (auto simp: beforeunload_def tracked_once_def Let_def list_all_clearTimeout)
qed

lemma tracked_once_step: "tracked_once el \<Longrightarrow> tracked_once (step el ev)"
proof -
  assume a: "tracked_once el"
  obtain now x where ev: "ev = (now, x)" by (cases ev)
  show ?thesis using a ev
    by (cases x) (simp_all add: tracked_once_setup tracked_once_intersection tracked_once_timer tracked_once_unload)
qed

lemma tracked_once_run: "tracked_once el \<Longrightarrow> tracked_once (run_events el evs)"
  unfolding run_events_def by (induction evs arbitrary: el) (simp_all add: tracked_once_step)

lemma tracked_once_calls: "tracked_once el \<Longrightarrow> length (billable_calls el) \<le> 1"
  by (auto simp: tracked_once_def split: if_splits)

lemma setup_idem: "setupViewabilityTracking cb' (setupViewabilityTracking cb el) = setupViewabilityTracking cb el"
  by (simp add: setupViewabilityTracking_def)

text \<open>
  C1. Whatever happens to a tracked element, in whatever order (registrations with any
  callbacks, intersection changes, timer expiries, page unload), the bound callback
  runs at most once. Registering an element that is registered already changes nothing,
  so two registrations in a row are one.
\<close>

theorem billable_callback_at_most_once:
  "length (billable_calls (run_events new_element evs)) \<le> 1
   \<and> setupViewabilityTracking cb' (setupViewabilityTracking cb el) = setupViewabilityTracking cb el
   \<and> run_events el ((t, Setup cb) # (t', Setup cb') # evs) = run_events el ((t, Setup cb) # evs)"
  using tracked_once_calls[OF tracked_once_run[OF tracked_once_new]]
  by (simp add: setup_idem run_events_def)

lemmas viewability_defs =
  timeline_def visible_def setupViewabilityTracking_def new_element_def intersection_change_def
  observer_callback_def truthy_time_def clearTimeout_def timer_expires_def timeout_callback_def
  THRESHOLD_def DURATION_def Let_def

text \<open>
  C2. The times of the timeline are counted from its first event, at which
  \<^verbatim>\<open>performance.now()\<close> reads \<open>t0\<close>. That reading is positive: an element is tracked only
  once a bid response has been rendered, and \<^verbatim>\<open>initialize\<close>, which the listener of the
  document starts before the listener of the window has set the configuration, has then
  waited 500 ms or more. The event at 400 ms, below the threshold, clears the timer that
  the first event set; no call is made before 1500 ms have passed; one call is made at
  1500 ms and none after it.
\<close>

theorem dwell_clock_reset_by_sub_threshold_event:
  "0 < t0 \<Longrightarrow>
     pending (play (take 2 (timeline t0)) (setupViewabilityTracking cb new_element)) = []
     \<and> (T < t0 + 1500 \<longrightarrow>
          billable_calls (advance T (play (timeline t0) (setupViewabilityTracking cb new_element))) = [])
     \<and> (t0 + 1500 \<le> T \<longrightarrow>
          billable_calls (advance T (play (timeline t0) (setupViewabilityTracking cb new_element)))
            = [(t0 + 1500, cb)])"
  by (simp add: viewability_defs advance.simps)

theorem dwell_clock_reset_by_sub_threshold_event_witness:
  "(0::nat) < 500
   \<and> pending (play (take 2 (timeline 500)) (setupViewabilityTracking 7 new_element)) = []
   \<and> billable_calls (advance 1999 (play (timeline 500) (setupViewabilityTracking 7 new_element))) = []
   \<and> billable_calls (advance 2000 (play (timeline 500) (setupViewabilityTracking 7 new_element)))
        = [(2000, 7)]
   \<and> billable_calls (advance 9000 (play (timeline 500) (setupViewabilityTracking 7 new_element)))
        = [(2000, 7)]"
  using dwell_clock_reset_by_sub_threshold_event[of 500 7 1999]
    dwell_clock_reset_by_sub_threshold_event[of 500 7 2000]
    dwell_clock_reset_by_sub_threshold_event[of 500 7 9000]
  by simp

text \<open>
  The hypothesis is needed: a reading of 0 would be stored in \<^verbatim>\<open>visibilityStart\<close> and
  tested as falsy, the event at 400 ms would clear nothing and the first timer would run
  at 1000 ms.
\<close>

lemma dwell_clock_at_time_zero:
  "billable_calls (advance 1499 (play (timeline 0) (setupViewabilityTracking cb new_element)))
     = [(1000, cb)]"
  by (simp add: viewability_defs advance.simps)

section \<open>Properties of the slot pipeline\<close>

lemmas parse_defs = parse_attribute_def parseInt_def is_space_def StrWhiteSpaceChar_def is_digit_def
  digits_value_def digit_value_def or_zero_def utf16_def

lemma digit_not_space: "is_digit c \<Longrightarrow> \<not> is_space c"
  by (auto simp: is_digit_def is_space_def StrWhiteSpaceChar_def)

lemma sign_not_space: "\<not> is_space 43" "\<not> is_space 45"
  by (simp_all add: is_space_def StrWhiteSpaceChar_def)

lemma sign_not_digit: "\<not> is_digit 43" "\<not> is_digit 45"
  by (simp_all add: is_digit_def)

lemma zero_digit: "is_digit 48"
  by (simp add: is_digit_def)

lemma foldl_digits_nonneg:
  "list_all is_digit ds \<Longrightarrow> 0 \<le> acc \<Longrightarrow> acc \<le> foldl (\<lambda>acc c. 10 * acc + digit_value c) acc ds"
proof (induction ds arbitrary: acc)
  case Nil
  then show ?case by simp
next
  case (Cons d ds)
  have "acc \<le> 10 * acc + digit_value d"
    using Cons.prems by (simp add: is_digit_def digit_value_def)
  moreover have "10 * acc + digit_value d \<le> foldl (\<lambda>acc c. 10 * acc + digit_value c) (10 * acc + digit_value d) ds"
    using Cons.prems by (intro Cons.IH) (auto simp: is_digit_def digit_value_def)
  ultimately show ?case by simp
qed

lemma foldl_digits_pos:
  "list_all is_digit ds \<Longrightarrow> 0 \<le> acc \<Longrightarrow> 0 < acc \<or> list_ex (\<lambda>c. c \<noteq> 48) ds \<Longrightarrow>
   0 < foldl (\<lambda>acc c. 10 * acc + digit_value c) acc ds"
proof (induction ds arbitrary: acc)
  case Nil
  then show ?case by simp
next
  case (Cons d ds)
  have dv: "0 \<le> digit_value d" "d \<noteq> 48 \<Longrightarrow> 0 < digit_value d"
    using Cons.prems(1) by (auto simp: is_digit_def digit_value_def)
  have "0 < 10 * acc + digit_value d \<or> list_ex (\<lambda>c. c \<noteq> 48) ds"
    using Cons.prems(2,3) dv by (cases "d = 48") auto
  moreover have "0 \<le> 10 * acc + digit_value d"
    using Cons.prems(2) dv by simp
  ultimately show ?case
    using Cons.prems(1) Cons.IH[of "10 * acc + digit_value d"] by simp
qed

lemma foldl_zeros:
  "list_all (\<lambda>c. c = 48) zs \<Longrightarrow> foldl (\<lambda>acc c. 10 * acc + digit_value c) 0 zs = 0"
  by (induction zs) (auto simp: digit_value_def)

lemma digits_value_zero_iff:
  assumes "list_all is_digit ds"
  shows "digits_value ds = 0 \<longleftrightarrow> list_all (\<lambda>c. c = 48) ds"
proof
  assume z: "digits_value ds = 0"
  show "list_all (\<lambda>c. c = 48) ds"
  proof (rule ccontr)
    assume "\<not> list_all (\<lambda>c. c = 48) ds"
    then have "list_ex (\<lambda>c. c \<noteq> 48) ds" by (auto simp: list_all_iff list_ex_iff)
    then have "0 < digits_value ds"
      unfolding digits_value_def using assms by (intro foldl_digits_pos) auto
    then show False using z by simp
  qed
next
  assume "list_all (\<lambda>c. c = 48) ds"
  then show "digits_value ds = 0" by (simp add: digits_value_def foldl_zeros)
qed

lemma cut_text: "s = lead_space s @ lead_sign s @ takeWhile is_digit (after_sign s) @ dropWhile is_digit (after_sign s)"
proof -
  have "dropWhile is_space s = lead_sign s @ after_sign s"
    by (cases "dropWhile is_space s") (auto simp: lead_sign_def after_sign_def Let_def)
  then have "s = lead_space s @ lead_sign s @ after_sign s"
    by (metis lead_space_def takeWhile_dropWhile_id)
  then show ?thesis by (metis takeWhile_dropWhile_id)
qed

lemma parseInt_cut:
  "parseInt s =
     (if takeWhile is_digit (after_sign s) = [] then None
      else Some (if lead_sign s = [45] then - digits_value (takeWhile is_digit (after_sign s))
                 else digits_value (takeWhile is_digit (after_sign s))))"
  by (auto simp: parseInt_def after_sign_def lead_sign_def Let_def)

lemma parseInt_parts:
  assumes "list_all is_space ws" "optional_sign sg" "list_all is_digit ds"
    "rest = [] \<or> \<not> is_digit (hd rest)"
    "sg = [] \<and> ds = [] \<longrightarrow> rest = [] \<or> (\<not> is_space (hd rest) \<and> hd rest \<noteq> 43 \<and> hd rest \<noteq> 45)"
  shows "parseInt (ws @ sg @ ds @ rest) =
         (if ds = [] then None else Some (if sg = [45] then - digits_value ds else digits_value ds))"
proof -
  let ?x = "sg @ ds @ rest"
  have drop: "dropWhile is_space (ws @ ?x) = dropWhile is_space ?x"
    using assms(1) by (intro dropWhile_append2) (auto simp: list_all_iff)
  have nosp: "dropWhile is_space ?x = ?x"
  proof (cases ?x)
    case Nil
    then show ?thesis by simp
  next
    case (Cons c cs)
    have "\<not> is_space c"
    proof (cases "sg = []")
      case False
      then show ?thesis using assms(2) Cons sign_not_space by (auto simp: optional_sign_def)
    next
      case True
      show ?thesis
      proof (cases ds)
        case Nil
        then show ?thesis using True Cons assms(5) by (cases rest) auto
      next
        case (Cons d ds')
        then have "c = d" "is_digit d" using True \<open>?x = c # cs\<close> assms(3) by auto
        then show ?thesis by (simp add: digit_not_space)
      qed
    qed
    then show ?thesis using Cons by simp
  qed
  have tw: "takeWhile is_digit (ds @ rest) = ds"
  proof -
    have "takeWhile is_digit rest = []" using assms(4) by (cases rest) auto
    moreover have "takeWhile is_digit (ds @ rest) = ds @ takeWhile is_digit rest"
      using assms(3) by (intro takeWhile_append2) (auto simp: list_all_iff)
    ultimately show ?thesis by simp
  qed
  have parts: "lead_sign (ws @ ?x) = sg \<and> after_sign (ws @ ?x) = ds @ rest"
  proof (cases "sg = []")
    case False
    then show ?thesis
      using assms(2) drop nosp by (auto simp: optional_sign_def lead_sign_def after_sign_def Let_def)
  next
    case True
    have "ds @ rest = [] \<or> (hd (ds @ rest) \<noteq> 43 \<and> hd (ds @ rest) \<noteq> 45)"
    proof (cases ds)
      case Nil
      then show ?thesis using True assms(5) by auto
    next
      case (Cons d ds')
      then have "is_digit d" using assms(3) by simp
      then show ?thesis using Cons by (auto simp: is_digit_def)
    qed
    then show ?thesis
      using True drop nosp by (auto simp: lead_sign_def after_sign_def Let_def)
  qed
  from parts have ls: "lead_sign (ws @ sg @ ds @ rest) = sg"
    and af: "after_sign (ws @ sg @ ds @ rest) = ds @ rest" by simp_all
  show ?thesis
    unfolding parseInt_cut ls af tw by simp
qed


lemma unusable_iff: "unusable a \<longleftrightarrow> or_zero (parse_attribute a) = 0"
proof (cases a)
  case None
  then show ?thesis by (simp add: unusable_def parse_defs)
next
  case (Some s)
  show ?thesis
  proof
    assume "unusable a"
    then obtain ws sg zs rest where p: "s = ws @ sg @ zs @ rest" "list_all is_space ws"
      "optional_sign sg" "list_all (\<lambda>c. c = 48) zs" "rest = [] \<or> \<not> is_digit (hd rest)"
      "sg = [] \<and> zs = [] \<longrightarrow> rest = [] \<or> (\<not> is_space (hd rest) \<and> hd rest \<noteq> 43 \<and> hd rest \<noteq> 45)"
      using Some by (auto simp: unusable_def)
    have dz: "list_all is_digit zs" using p(4) by (auto simp: list_all_iff zero_digit)
    have "parseInt s = (if zs = [] then None else Some (if sg = [45] then - digits_value zs else digits_value zs))"
      unfolding p(1) using p(2,3) dz p(5,6) by (rule parseInt_parts)
    moreover have "digits_value zs = 0" using dz p(4) by (simp add: digits_value_zero_iff)
    ultimately show "or_zero (parse_attribute a) = 0"
      using Some by (simp add: parse_attribute_def or_zero_def)
  next
    assume z: "or_zero (parse_attribute a) = 0"
    let ?ds = "takeWhile is_digit (after_sign s)"
    let ?rest = "dropWhile is_digit (after_sign s)"
    have dd: "list_all is_digit ?ds" by (auto simp: list_all_iff dest: set_takeWhileD)
    have "?ds = [] \<or> digits_value ?ds = 0"
      using z Some by (auto simp: parse_attribute_def or_zero_def parseInt_cut split: if_splits)
    then have zs: "list_all (\<lambda>c. c = 48) ?ds"
      using dd by (auto simp: digits_value_zero_iff)
    have sp: "list_all is_space (lead_space s)"
      by (auto simp: lead_space_def list_all_iff dest: set_takeWhileD)
    have sg: "optional_sign (lead_sign s)"
      by (auto simp: optional_sign_def lead_sign_def Let_def)
    have r: "?rest = [] \<or> \<not> is_digit (hd ?rest)"
      using hd_dropWhile[of is_digit "after_sign s"] by auto
    have c: "lead_sign s = [] \<and> ?ds = [] \<longrightarrow>
             ?rest = [] \<or> (\<not> is_space (hd ?rest) \<and> hd ?rest \<noteq> 43 \<and> hd ?rest \<noteq> 45)"
    proof (intro impI)
      assume a: "lead_sign s = [] \<and> ?ds = []"
      then have "?rest = after_sign s"
        by (metis append_Nil takeWhile_dropWhile_id)
      moreover have "after_sign s = dropWhile is_space s"
        using a by (auto simp: lead_sign_def after_sign_def Let_def split: if_splits)
      moreover have "dropWhile is_space s = [] \<or> \<not> is_space (hd (dropWhile is_space s))"
        using hd_dropWhile[of is_space s] by auto
      moreover have "dropWhile is_space s = [] \<or> (hd (dropWhile is_space s) \<noteq> 43 \<and> hd (dropWhile is_space s) \<noteq> 45)"
        using a by (auto simp: lead_sign_def Let_def split: if_splits)
      ultimately show "?rest = [] \<or> (\<not> is_space (hd ?rest) \<and> hd ?rest \<noteq> 43 \<and> hd ?rest \<noteq> 45)"
        by auto
    qed
    show "unusable a"
      unfolding unusable_def Some option.case
      using cut_text[of s] sp sg zs r c by blast
  qed
qed

lemma usable_iff: "usable a \<longleftrightarrow> or_zero (parse_attribute a) \<noteq> 0"
proof
  assume "usable a"
  then obtain ws sg ds rest where p: "a = Some (ws @ sg @ ds @ rest)" "list_all is_space ws"
    "optional_sign sg" "list_all is_digit ds" "list_ex (\<lambda>c. c \<noteq> 48) ds"
    by (auto simp: usable_def)
  let ?more = "takeWhile is_digit rest"
  let ?left = "dropWhile is_digit rest"
  have rest: "rest = ?more @ ?left" by simp
  have d: "list_all is_digit (ds @ ?more)"
    using p(4) by (auto simp: list_all_iff dest: set_takeWhileD)
  have ne: "ds @ ?more \<noteq> []" using p(5) by (auto simp: list_ex_iff)
  have nz: "list_ex (\<lambda>c. c \<noteq> 48) (ds @ ?more)" using p(5) by (auto simp: list_ex_iff)
  have l: "?left = [] \<or> \<not> is_digit (hd ?left)"
    using hd_dropWhile[of is_digit rest] by auto
  have "parseInt (ws @ sg @ (ds @ ?more) @ ?left) =
        (if ds @ ?more = [] then None
         else Some (if sg = [45] then - digits_value (ds @ ?more) else digits_value (ds @ ?more)))"
    using p(2,3) d l ne by (intro parseInt_parts) auto
  moreover have "ws @ sg @ (ds @ ?more) @ ?left = ws @ sg @ ds @ rest" by simp
  moreover have "digits_value (ds @ ?more) \<noteq> 0"
    using d nz digits_value_zero_iff[of "ds @ ?more"] by (auto simp: list_all_iff list_ex_iff)
  ultimately show "or_zero (parse_attribute a) \<noteq> 0"
    using p(1) ne by (simp add: parse_attribute_def or_zero_def del: append_assoc)
next
  assume nz: "or_zero (parse_attribute a) \<noteq> 0"
  then obtain s where s: "a = Some s"
    by (cases a) (auto simp: parse_defs)
  let ?ds = "takeWhile is_digit (after_sign s)"
  let ?rest = "dropWhile is_digit (after_sign s)"
  have dd: "list_all is_digit ?ds" by (auto simp: list_all_iff dest: set_takeWhileD)
  have v: "?ds \<noteq> [] \<and> digits_value ?ds \<noteq> 0"
    using nz s by (auto simp: parse_attribute_def or_zero_def parseInt_cut split: if_splits)
  then have "\<not> list_all (\<lambda>c. c = 48) ?ds" using dd by (simp add: digits_value_zero_iff)
  then have ex: "list_ex (\<lambda>c. c \<noteq> 48) ?ds" by (auto simp: list_all_iff list_ex_iff)
  have sp: "list_all is_space (lead_space s)"
    by (auto simp: lead_space_def list_all_iff dest: set_takeWhileD)
  have sg: "optional_sign (lead_sign s)"
    by (auto simp: optional_sign_def lead_sign_def Let_def)
  show "usable a"
    unfolding usable_def s using cut_text[of s] sp sg dd ex by blast
qed

lemma parse_undefined: "parseInt (utf16 ''undefined'') = None"
  by (simp add: parse_defs)

lemma missing_attribute: "or_zero (parse_attribute None) = 0"
  by (simp add: parse_attribute_def parse_undefined or_zero_def)

lemma misconfigured_iff:
  "misconfigured el \<longleftrightarrow> unusable (data_width el) \<or> unusable (data_height el) \<or> unusable (data_slot_id el)"
  by (simp add: misconfigured_def unusable_iff)

lemma well_configured_iff: "well_configured el \<longleftrightarrow> \<not> misconfigured el"
  by (simp add: well_configured_def misconfigured_def usable_iff)

lemma misconfigured_slot:
  "misconfigured el \<Longrightarrow> process_placeholder ev cfg i el = (el\<lparr>display_none := True\<rparr>, Fulfilled (), [])"
  by (auto simp: misconfigured_def process_placeholder_def hideAdSlot_def Let_def)

lemma valid_slot_one_request:
  "\<not> misconfigured el \<Longrightarrow> length (snd (snd (process_placeholder ev cfg i el))) = 1"
  by (auto simp: misconfigured_def process_placeholder_def loadAdForSlot_def makeBidRequest_def Let_def
      split: promise.splits prod.splits)

lemma requests_of_placeholders:
  "length (concat (map (\<lambda>r. snd (snd r))
      (map (\<lambda>(i, el). process_placeholder ev cfg i el) (enumerate n els))))
   = length (filter (\<lambda>el. \<not> misconfigured el) els)"
proof (induction els arbitrary: n)
  case Nil
  then show ?case by simp
next
  case (Cons el els)
  show ?case
  proof (cases "misconfigured el")
    case True
    then show ?thesis using Cons[of "Suc n"] by (simp add: misconfigured_slot)
  next
    case False
    then show ?thesis using Cons[of "Suc n"] valid_slot_one_request[OF False, of ev cfg n] by simp
  qed
qed

lemma wait_example: "wait_for_config (example_env b) 0 0 = (1, 500)"
  by (simp add: wait_for_config.simps[of _ 0] wait_for_config.simps[of _ "Suc 0"] example_env_def
      maxRetries_def baseDelay_def)

text \<open>
  C3, as the code has it. An attribute is unusable when it is missing, or when its text,
  after leading white space and an optional sign, goes on with no digit or with zeros
  only. A placeholder with an unusable width, height or slot id makes no network call
  and is hidden at once, its promise fulfilled: the misconfigured terminal state. A
  placeholder whose three attributes hold, after white space and an optional sign,
  digits that are not all zero, sends one bid request; every placeholder is of one kind
  or the other, and a run that finds the configuration sends as many requests as there
  are placeholders of the second kind.
\<close>

theorem misconfigured_slot_no_network:
  "(unusable (data_width el) \<or> unusable (data_height el) \<or> unusable (data_slot_id el) \<longrightarrow>
      process_placeholder ev cfg i el = (el\<lparr>display_none := True\<rparr>, Fulfilled (), [])
      \<and> terminal (el\<lparr>display_none := True\<rparr>))
   \<and> (well_configured el \<longrightarrow> length (snd (snd (process_placeholder ev cfg i el))) = 1)
   \<and> (well_configured el \<longleftrightarrow>
        \<not> (unusable (data_width el) \<or> unusable (data_height el) \<or> unusable (data_slot_id el)))
   \<and> (config_after ev (fst (wait_for_config ev 0 0)) \<noteq> None \<longrightarrow>
        length (network (initialize ev els)) = length (filter well_configured els))"
proof (intro conjI impI)
  assume "unusable (data_width el) \<or> unusable (data_height el) \<or> unusable (data_slot_id el)"
  then have "misconfigured el" by (simp add: misconfigured_iff)
  then show "process_placeholder ev cfg i el = (el\<lparr>display_none := True\<rparr>, Fulfilled (), [])"
    by (rule misconfigured_slot)
  show "terminal (el\<lparr>display_none := True\<rparr>)"
    by (simp add: terminal_def)
next
  assume "well_configured el"
  then have "\<not> misconfigured el" by (simp add: well_configured_iff)
  then show "length (snd (snd (process_placeholder ev cfg i el))) = 1"
    by (rule valid_slot_one_request)
next
  show "well_configured el \<longleftrightarrow>
        \<not> (unusable (data_width el) \<or> unusable (data_height el) \<or> unusable (data_slot_id el))"
    by (simp add: well_configured_iff misconfigured_iff)
next
  assume "config_after ev (fst (wait_for_config ev 0 0)) \<noteq> None"
  then obtain cfg' where "config_after ev (fst (wait_for_config ev 0 0)) = Some cfg'"
    by auto
  then show "length (network (initialize ev els)) = length (filter well_configured els)"
    using requests_of_placeholders[of ev cfg' 0 els]
    by (simp add: initialize_def Let_def well_configured_iff[abs_def])
qed

theorem misconfigured_slot_no_network_witness:
  "unusable (data_height (placeholder (Some ''300'') (Some ''0'') (Some ''7'')))
   \<and> process_placeholder (example_env second_throws) example_config 0
        (placeholder (Some ''300'') (Some ''0'') (Some ''7''))
      = ((placeholder (Some ''300'') (Some ''0'') (Some ''7''))\<lparr>display_none := True\<rparr>, Fulfilled (), [])
   \<and> well_configured nbsp_slot
   \<and> length (snd (snd (process_placeholder (example_env second_throws) example_config 1 nbsp_slot))) = 1
   \<and> config_after (example_env second_throws) (fst (wait_for_config (example_env second_throws) 0 0)) \<noteq> None
   \<and> length (network (initialize (example_env second_throws) mixed_slots)) = 2"
proof -
  let ?ev = "example_env second_throws"
  let ?el = "placeholder (Some ''300'') (Some ''0'') (Some ''7'')"
  have m: "unusable (data_height ?el)"
    by (simp add: unusable_iff placeholder_def parse_defs)
  have v: "well_configured nbsp_slot"
    by (simp add: well_configured_def usable_iff nbsp_slot_def placeholder_def parse_defs)
  have c: "config_after ?ev (fst (wait_for_config ?ev 0 0)) \<noteq> None"
    by (simp add: wait_example) (simp add: example_env_def)
  have f: "length (filter well_configured mixed_slots) = 2"
    by (simp add: mixed_slots_def well_configured_def usable_iff nbsp_slot_def leaderboard_def
        placeholder_def parse_defs)
  have one: "process_placeholder ?ev example_config 0 ?el
      = (?el\<lparr>display_none := True\<rparr>, Fulfilled (), [])"
    using m misconfigured_slot_no_network[of ?el ?ev example_config 0 mixed_slots] by blast
  have two: "length (snd (snd (process_placeholder ?ev example_config 1 nbsp_slot))) = 1"
    using v misconfigured_slot_no_network[of nbsp_slot ?ev example_config 1 mixed_slots] by blast
  have three: "length (network (initialize ?ev mixed_slots)) = 2"
    using c f misconfigured_slot_no_network[of nbsp_slot ?ev example_config 1 mixed_slots] by simp
  show ?thesis using m v c one two three by (intro conjI)
qed

text \<open>
  C3 as stated fails for a negative value: \<^verbatim>\<open>-300\<close> is truthy, so the placeholder
  enters the pipeline and a bid request is sent.
\<close>

theorem negative_width_enters_pipeline:
  "or_zero (parse_attribute (Some (utf16 ''-300''))) = -300
   \<and> snd (snd (process_placeholder (example_env (\<lambda>i. NetworkFailure)) example_config 0
        (placeholder (Some ''-300'') (Some ''250'') (Some ''7'')))) \<noteq> []"
  by (simp add: process_placeholder_def placeholder_def parse_defs loadAdForSlot_def makeBidRequest_def
      example_env_def fetch_def Let_def)

lemma terminal_hide: "terminal (hideAdSlot el m)"
  by (simp add: terminal_def hideAdSlot_def)

lemma terminal_showError: "terminal (showError el m)"
  by (simp add: terminal_def showError_def)

lemma terminal_creative: "terminal (el\<lparr>innerHTML := Creative c\<rparr>)"
  by (simp add: terminal_def)

lemma terminal_renderAd: "terminal (renderAd ev el r)"
  by (auto simp: renderAd_def renderBrandAd_def renderOrtbAd_def renderTestingPidAd_def Let_def
      terminal_hide terminal_showError terminal_creative split: option.splits)

lemma loadAdForSlot_settled:
  "fst (snd (loadAdForSlot ev cfg i el sl)) \<noteq> Rejected e"
  "fst (snd (loadAdForSlot ev cfg i el sl)) = Fulfilled () \<Longrightarrow> terminal (fst (loadAdForSlot ev cfg i el sl))"
  by (auto simp: loadAdForSlot_def terminal_hide terminal_renderAd split: prod.splits promise.splits)

lemma makeBidRequest_pending:
  "fst (makeBidRequest ev cfg i sl pid) = Pending \<Longrightarrow> \<exists>req. bidder ev i req = NoResponse"
  by (auto simp: makeBidRequest_def fetch_def Let_def split: fetch_behaviour.splits if_splits body.splits)

lemma loadAdForSlot_pending:
  "fst (snd (loadAdForSlot ev cfg i el sl)) = Pending \<Longrightarrow> \<exists>req. bidder ev i req = NoResponse"
  using makeBidRequest_pending[of ev cfg i sl "query_pid ev"]
  by (auto simp: loadAdForSlot_def split: prod.splits promise.splits)

lemma process_placeholder_settled:
  "fst (snd (process_placeholder ev cfg i el)) \<noteq> Rejected e"
  "fst (snd (process_placeholder ev cfg i el)) = Fulfilled () \<Longrightarrow> terminal (fst (process_placeholder ev cfg i el))"
  "fst (snd (process_placeholder ev cfg i el)) = Pending \<Longrightarrow> \<exists>req. bidder ev i req = NoResponse"
  using loadAdForSlot_settled loadAdForSlot_pending
  by (auto simp: process_placeholder_def Let_def terminal_hide split: if_splits)

lemma promise_cases: "p = Pending \<or> p = Fulfilled () \<or> (\<exists>e. p = Rejected e)"
  by (cases p) auto

text \<open>
  C4, as the code has it. The promise of \<^verbatim>\<open>initialize\<close> is never rejected. When the
  configuration is found within the retries, a run that resolves leaves every declared
  slot in a terminal state, and the run does resolve when every bid request settles,
  with a response or with a failure. When the configuration is not found, the run
  resolves with no slot touched and no call made. The case of the specification (three
  valid slots, the bid request of one throws) is the worked case below.
\<close>

theorem run_all_settled:
  "outcome (initialize ev els) \<noteq> Rejected e
   \<and> length (slots (initialize ev els)) = length els
   \<and> (config_after ev (fst (wait_for_config ev 0 0)) \<noteq> None \<longrightarrow>
        outcome (initialize ev els) = Fulfilled () \<longrightarrow> list_all terminal (slots (initialize ev els)))
   \<and> (config_after ev (fst (wait_for_config ev 0 0)) \<noteq> None \<longrightarrow>
        (\<forall>i req. bidder ev i req \<noteq> NoResponse) \<longrightarrow>
        outcome (initialize ev els) = Fulfilled () \<and> list_all terminal (slots (initialize ev els)))
   \<and> (config_after ev (fst (wait_for_config ev 0 0)) = None \<longrightarrow>
        initialize ev els = \<lparr>outcome = Fulfilled (), slots = els, network = []\<rparr>)"
proof -
  have untouched: "initialize ev els = \<lparr>outcome = Fulfilled (), slots = els, network = []\<rparr>"
    if "config_after ev (fst (wait_for_config ev 0 0)) = None"
    using that by (simp add: initialize_def)
  have rej: "outcome (initialize ev els) \<noteq> Rejected e"
    by (auto simp: initialize_def allSettled_def Let_def split: option.splits)
  have len: "length (slots (initialize ev els)) = length els"
    by (auto simp: initialize_def Let_def split: option.splits)
  have all_terminal: "list_all terminal (slots (initialize ev els))"
    if c: "config_after ev (fst (wait_for_config ev 0 0)) \<noteq> None"
      and f: "outcome (initialize ev els) = Fulfilled ()"
  proof -
    obtain cfg where cfg: "config_after ev (fst (wait_for_config ev 0 0)) = Some cfg"
      using c by auto
    have "terminal (fst (process_placeholder ev cfg i el))" if "(i, el) \<in> set (enumerate 0 els)" for i el
    proof -
      have "fst (snd (process_placeholder ev cfg i el)) \<noteq> Pending"
        using f cfg that
        by (force simp: initialize_def allSettled_def Let_def list_ex_iff split: if_splits)
      then have "fst (snd (process_placeholder ev cfg i el)) = Fulfilled ()"
        using promise_cases[of "fst (snd (process_placeholder ev cfg i el))"]
          process_placeholder_settled(1)[of ev cfg i el] by auto
      then show ?thesis by (rule process_placeholder_settled(2))
    qed
    then show ?thesis
      using cfg by (auto simp: initialize_def Let_def list_all_iff)
  qed
  have ful: "outcome (initialize ev els) = Fulfilled ()"
    if c: "config_after ev (fst (wait_for_config ev 0 0)) \<noteq> None"
      and n: "\<forall>i req. bidder ev i req \<noteq> NoResponse"
  proof -
    obtain cfg where cfg: "config_after ev (fst (wait_for_config ev 0 0)) = Some cfg"
      using c by auto
    have "fst (snd (process_placeholder ev cfg i el)) \<noteq> Pending" for i el
      using process_placeholder_settled(3)[of ev cfg i el] n by auto
    then have "\<not> list_ex (\<lambda>p. p = Pending)
        (map (\<lambda>r. fst (snd r)) (map (\<lambda>(i, el). process_placeholder ev cfg i el) (enumerate 0 els)))"
      by (auto simp: list_ex_iff dest: sym)
    then show ?thesis
      using cfg by (simp add: initialize_def allSettled_def Let_def)
  qed
  show ?thesis using rej len all_terminal ful untouched by blast
qed


lemmas run_defs =
  initialize_def process_placeholder_def loadAdForSlot_def makeBidRequest_def fetch_def
  response_ok_def allSettled_def hideAdSlot_def showError_def renderAd_def renderBrandAd_def
  renderOrtbAd_def renderTestingPidAd_def terminal_def example_env_def placeholder_def
  brand_response_def empty_response_def Let_def maxRetries_def

theorem run_all_settled_witness:
  "config_after (example_env second_throws) (fst (wait_for_config (example_env second_throws) 0 0)) \<noteq> None
   \<and> (\<forall>i req. bidder (example_env second_throws) i req \<noteq> NoResponse)
   \<and> outcome (initialize (example_env second_throws) three_slots) = Fulfilled ()
   \<and> list_all terminal (slots (initialize (example_env second_throws) three_slots))
   \<and> map display_none (slots (initialize (example_env second_throws) three_slots)) = [False, True, False]
   \<and> map innerHTML (slots (initialize (example_env second_throws) three_slots))
        = [Creative (BrandCreative brand_response), LoadingBox, Creative (BrandCreative brand_response)]"
proof -
  have c: "config_after (example_env second_throws) (fst (wait_for_config (example_env second_throws) 0 0)) \<noteq> None"
    by (simp add: wait_example) (simp add: example_env_def)
  have n: "\<forall>i req. bidder (example_env second_throws) i req \<noteq> NoResponse"
    by (simp add: example_env_def second_throws_def)
  have shown: "map display_none (slots (initialize (example_env second_throws) three_slots)) = [False, True, False]
      \<and> map innerHTML (slots (initialize (example_env second_throws) three_slots))
        = [Creative (BrandCreative brand_response), LoadingBox, Creative (BrandCreative brand_response)]"
    by (simp add: wait_example initialize_def)
       (simp add: run_defs three_slots_def second_throws_def parse_defs enumerate_eq_zip upt_rec)
  show ?thesis
    using run_all_settled[of "example_env second_throws" three_slots] c n shown by blast
qed

text \<open>
  C4 as stated fails when the configuration never appears: \<^verbatim>\<open>initialize\<close> returns
  after the last retry, its promise fulfilled, with every slot untouched.
\<close>

theorem run_without_config_touches_no_slot:
  "outcome (initialize ((example_env second_throws)\<lparr>config_after := (\<lambda>n. None)\<rparr>) three_slots) = Fulfilled ()
   \<and> slots (initialize ((example_env second_throws)\<lparr>config_after := (\<lambda>n. None)\<rparr>) three_slots) = three_slots
   \<and> network (initialize ((example_env second_throws)\<lparr>config_after := (\<lambda>n. None)\<rparr>) three_slots) = []
   \<and> \<not> list_all terminal three_slots"
  by (simp add: initialize_def example_env_def three_slots_def placeholder_def terminal_def)


text \<open>
  C5, on the code. Nothing in \<^verbatim>\<open>makeBidRequest\<close> bounds the wait: the member
  \<^verbatim>\<open>timeout: 3000\<close> is passed to \<^verbatim>\<open>fetch\<close>, which does not read it. When the
  endpoint never answers, the promise stays pending, no error is raised, the slot keeps
  its loading box and \<^verbatim>\<open>initialize\<close> never resolves.
\<close>

theorem bid_request_without_response_stays_pending:
  "fst (makeBidRequest (example_env (\<lambda>i. NoResponse)) example_config 0 leaderboard_slot None) = Pending
   \<and> map init_timeout_of (snd (makeBidRequest (example_env (\<lambda>i. NoResponse)) example_config 0 leaderboard_slot None))
       = [Some 3000]
   \<and> outcome (initialize (example_env (\<lambda>i. NoResponse)) [leaderboard]) = Pending
   \<and> map display_none (slots (initialize (example_env (\<lambda>i. NoResponse)) [leaderboard])) = [False]
   \<and> map innerHTML (slots (initialize (example_env (\<lambda>i. NoResponse)) [leaderboard])) = [LoadingBox]"
  by (simp add: wait_example initialize_def)
     (simp add: run_defs leaderboard_def leaderboard_slot_def parse_defs init_timeout_of_def)

text \<open>
  The other failures of the bid request (the transport fails, the status is outside 2xx,
  the body is not JSON) reject the promise after the one POST, and the slot is hidden.
\<close>

lemma bid_failure_is_one_hidden_slot:
  assumes "bidder ev i req = NetworkFailure \<or> bidder ev i req = Response st b \<and> (st < 200 \<or> 299 < st)
           \<or> bidder ev i req = Response st InvalidJson"
    and "req = \<lparr>req_slot_id = slot_id sl, req_ua = userAgent ev, req_device = cfg,
                req_pid = (case query_pid ev of None \<Rightarrow> None | Some p \<Rightarrow> if p = [] then None else Some p)\<rparr>"
  shows "\<exists>e. fst (makeBidRequest ev cfg i sl (query_pid ev)) = Rejected e"
    and "fst (loadAdForSlot ev cfg i el sl) = el\<lparr>display_none := True\<rparr>"
    and "fst (snd (loadAdForSlot ev cfg i el sl)) = Fulfilled ()"
    and "length (snd (snd (loadAdForSlot ev cfg i el sl))) = 1"
  using assms
  by (auto simp: loadAdForSlot_def makeBidRequest_def fetch_def response_ok_def hideAdSlot_def Let_def
      split: body.splits)

text \<open>
  C9, on the code. An ORTB creative whose markup carries no \<^verbatim>\<open>onload\<close> impression URL
  renders, and when its image loads the win notice is sent, rewritten, but the
  impression journey event is not: it is sent only inside
  \<^verbatim>\<open>if (urls.impressionUrl)\<close>. The billable journey event of the same creative is sent
  without such a condition.
\<close>

theorem ortb_load_without_embedded_url_sends_no_journey_event:
  "renderAd ortb_env leaderboard (Some ortb_response)
     = leaderboard\<lparr>innerHTML := Creative (OrtbCreative ortb_response ortb_bid plain_urls)\<rparr>
   \<and> media_load (OrtbCreative ortb_response ortb_bid plain_urls) = [Beacon ''https://win.example/n?p=2.5'']
   \<and> Beacon (journey_url ortb_response EVENT_IMPRESSION)
       \<notin> set (media_load (OrtbCreative ortb_response ortb_bid plain_urls))
   \<and> billable (OrtbCreative ortb_response ortb_bid plain_urls)
       = [Beacon ''https://dev.ssp.verismart.ai/api/update-adjourney?bid_id=r1&event=billable_impression_at'']"
  by (simp add: renderAd_def renderOrtbAd_def extractUrls_def or_null_def ortb_env_def example_env_def
      plain_markup_def plain_urls_def ortb_response_def ortb_bid_def notice_def sendImpression_def
      substitute_defs example_defs journey_url_def updateJourneyUrl_def urlencode_def
      urlencode_byte_def hex_digit_def EVENT_IMPRESSION_def EVENT_BILLED_IMPRESSION_def
      leaderboard_def placeholder_def Let_def)

text \<open>With an embedded impression URL, the load listener sends it and the journey event.\<close>

lemma ortb_load_with_embedded_url:
  assumes "impressionUrl u = Some iu" "iu \<noteq> []"
  shows "media_load (OrtbCreative resp b u)
         = [Beacon iu, Beacon (journey_url resp EVENT_IMPRESSION)] @ notice (nurl b) resp"
  using assms by (simp add: or_null_def sendImpression_def journey_url_def updateJourneyUrl_def)


text \<open>
  C10, as the code has it. A failed slot ends in one of two ways. \<^verbatim>\<open>hideAdSlot\<close> hides
  it (\<^verbatim>\<open>display: none\<close>) and leaves its content as it was: a misconfigured slot, a
  failed bid request, an unknown ad type, and the failures of a \<^verbatim>\<open>testing_pid\<close>
  creative. \<^verbatim>\<open>showError\<close> puts the error box with its message in the slot and leaves
  its visibility as it was: an invalid brand or ORTB creative, and a brand or ORTB media
  element that fails to load.
\<close>

theorem failed_slot_presentation:
  "(misconfigured el \<longrightarrow> fst (process_placeholder ev cfg i el) = el\<lparr>display_none := True\<rparr>)
   \<and> ((\<exists>e. fst (makeBidRequest ev cfg i sl (query_pid ev)) = Rejected e) \<longrightarrow>
        fst (loadAdForSlot ev cfg i el sl) = el\<lparr>display_none := True\<rparr>)
   \<and> renderAd ev el None = el\<lparr>innerHTML := Cleared, display_none := True\<rparr>
   \<and> (ad_type a \<noteq> JString ''brand'' \<and> ad_type a \<noteq> JString ''ortb''
        \<and> ad_type a \<noteq> JString ''testing_pid'' \<longrightarrow>
        renderAd ev el (Some a) = el\<lparr>innerHTML := Cleared, display_none := True\<rparr>)
   \<and> (ad_type a = JString ''testing_pid'' \<and> \<not> truthy (full_file_path a) \<longrightarrow>
        renderAd ev el (Some a) = el\<lparr>innerHTML := Cleared, display_none := True\<rparr>)
   \<and> (ad_type a = JString ''brand'' \<and> \<not> truthy (full_file_path a) \<longrightarrow>
        renderAd ev el (Some a) = el\<lparr>innerHTML := ErrorBox ''Invalid brand ad creative.''\<rparr>)
   \<and> (ad_type a = JString ''ortb'' \<and> first_bid (Some a) = None \<longrightarrow>
        renderAd ev el (Some a) = el\<lparr>innerHTML := ErrorBox ''No valid bid received.''\<rparr>)
   \<and> (ad_type a = JString ''ortb'' \<and> first_bid (Some a) = Some b
        \<and> or_null (img_src (dom_parser ev (adm b))) = None \<longrightarrow>
        renderAd ev el (Some a) = el\<lparr>innerHTML := ErrorBox ''Invalid ad creative.''\<rparr>)
   \<and> media_error el (BrandCreative a) = el\<lparr>innerHTML := ErrorBox (failed_to_load a)\<rparr>
   \<and> media_error el (OrtbCreative a b u) = el\<lparr>innerHTML := ErrorBox ''Ad image failed to load.''\<rparr>
   \<and> media_error el (TestingCreative a) = el\<lparr>display_none := True\<rparr>"
proof (intro conjI impI)
  assume "misconfigured el"
  then show "fst (process_placeholder ev cfg i el) = el\<lparr>display_none := True\<rparr>"
    by (auto simp: misconfigured_def process_placeholder_def hideAdSlot_def Let_def)
next
  assume "\<exists>e. fst (makeBidRequest ev cfg i sl (query_pid ev)) = Rejected e"
  then show "fst (loadAdForSlot ev cfg i el sl) = el\<lparr>display_none := True\<rparr>"
    by (auto simp: loadAdForSlot_def hideAdSlot_def split: prod.splits promise.splits)
next
  show "renderAd ev el None = el\<lparr>innerHTML := Cleared, display_none := True\<rparr>"
    by (simp add: renderAd_def hideAdSlot_def)
next
  assume "ad_type a \<noteq> JString ''brand'' \<and> ad_type a \<noteq> JString ''ortb''
        \<and> ad_type a \<noteq> JString ''testing_pid''"
  then show "renderAd ev el (Some a) = el\<lparr>innerHTML := Cleared, display_none := True\<rparr>"
    by (simp add: renderAd_def hideAdSlot_def)
next
  assume "ad_type a = JString ''testing_pid'' \<and> \<not> truthy (full_file_path a)"
  then show "renderAd ev el (Some a) = el\<lparr>innerHTML := Cleared, display_none := True\<rparr>"
    by (simp add: renderAd_def renderTestingPidAd_def hideAdSlot_def)
next
  assume "ad_type a = JString ''brand'' \<and> \<not> truthy (full_file_path a)"
  then show "renderAd ev el (Some a) = el\<lparr>innerHTML := ErrorBox ''Invalid brand ad creative.''\<rparr>"
    by (simp add: renderAd_def renderBrandAd_def showError_def)
next
  assume "ad_type a = JString ''ortb'' \<and> first_bid (Some a) = None"
  then show "renderAd ev el (Some a) = el\<lparr>innerHTML := ErrorBox ''No valid bid received.''\<rparr>"
    by (simp add: renderAd_def renderOrtbAd_def showError_def)
next
  assume "ad_type a = JString ''ortb'' \<and> first_bid (Some a) = Some b
        \<and> or_null (img_src (dom_parser ev (adm b))) = None"
  then show "renderAd ev el (Some a) = el\<lparr>innerHTML := ErrorBox ''Invalid ad creative.''\<rparr>"
    by (simp add: renderAd_def renderOrtbAd_def extractUrls_def showError_def Let_def or_null_def)
next
  show "media_error el (BrandCreative a) = el\<lparr>innerHTML := ErrorBox (failed_to_load a)\<rparr>"
    by (simp add: showError_def)
next
  show "media_error el (OrtbCreative a b u) = el\<lparr>innerHTML := ErrorBox ''Ad image failed to load.''\<rparr>"
    by (simp add: showError_def)
next
  show "media_error el (TestingCreative a) = el\<lparr>display_none := True\<rparr>"
    by (simp add: hideAdSlot_def)
qed

theorem failed_slot_presentation_witness:
  "misconfigured unset
   \<and> fst (process_placeholder (example_env second_throws) example_config 0 unset) = unset\<lparr>display_none := True\<rparr>
   \<and> (\<exists>e. fst (makeBidRequest (example_env second_throws) example_config 1 leaderboard_slot
              (query_pid (example_env second_throws))) = Rejected e)
   \<and> fst (loadAdForSlot (example_env second_throws) example_config 1 leaderboard leaderboard_slot)
       = leaderboard\<lparr>display_none := True\<rparr>
   \<and> renderAd (example_env second_throws) leaderboard (Some empty_response)
       = leaderboard\<lparr>innerHTML := Cleared, display_none := True\<rparr>
   \<and> renderAd (example_env second_throws) leaderboard (Some testing_response)
       = leaderboard\<lparr>innerHTML := Cleared, display_none := True\<rparr>
   \<and> renderAd (example_env second_throws) leaderboard (Some (empty_response\<lparr>ad_type := JString ''brand''\<rparr>))
       = leaderboard\<lparr>innerHTML := ErrorBox ''Invalid brand ad creative.''\<rparr>
   \<and> renderAd (example_env second_throws) leaderboard (Some (empty_response\<lparr>ad_type := JString ''ortb''\<rparr>))
       = leaderboard\<lparr>innerHTML := ErrorBox ''No valid bid received.''\<rparr>
   \<and> renderAd (example_env second_throws) leaderboard (Some imageless_response)
       = leaderboard\<lparr>innerHTML := ErrorBox ''Invalid ad creative.''\<rparr>"
proof -
  let ?ev = "example_env second_throws"
  have m: "misconfigured unset"
    by (simp add: misconfigured_def unset_def placeholder_def missing_attribute)
  have r: "\<exists>e. fst (makeBidRequest ?ev example_config 1 leaderboard_slot (query_pid ?ev)) = Rejected e"
    by (simp add: makeBidRequest_def fetch_def example_env_def second_throws_def Let_def)
  have t0: "ad_type empty_response \<noteq> JString ''brand'' \<and> ad_type empty_response \<noteq> JString ''ortb''
        \<and> ad_type empty_response \<noteq> JString ''testing_pid''"
    by (simp add: empty_response_def)
  have t1: "ad_type testing_response = JString ''testing_pid'' \<and> \<not> truthy (full_file_path testing_response)"
    by (simp add: testing_response_def empty_response_def)
  have t2: "ad_type (empty_response\<lparr>ad_type := JString ''brand''\<rparr>) = JString ''brand''
      \<and> \<not> truthy (full_file_path (empty_response\<lparr>ad_type := JString ''brand''\<rparr>))"
    by (simp add: empty_response_def)
  have t3: "ad_type (empty_response\<lparr>ad_type := JString ''ortb''\<rparr>) = JString ''ortb''
      \<and> first_bid (Some (empty_response\<lparr>ad_type := JString ''ortb''\<rparr>)) = None"
    by (simp add: empty_response_def first_bid_def first_seatbid_def)
  have t4: "ad_type imageless_response = JString ''ortb''
      \<and> first_bid (Some imageless_response) = Some imageless_bid
      \<and> or_null (img_src (dom_parser ?ev (adm imageless_bid))) = None"
    by (simp add: imageless_response_def response_with_bid_def empty_response_def first_bid_def
        first_seatbid_def example_env_def no_markup_def or_null_def)
  note inst = failed_slot_presentation[where el = unset and ev = ?ev and cfg = example_config
      and i = 0 and sl = leaderboard_slot]
  have a: "fst (process_placeholder ?ev example_config 0 unset) = unset\<lparr>display_none := True\<rparr>"
    using m inst[of empty_response] by blast
  note inst' = failed_slot_presentation[where el = leaderboard and ev = ?ev and cfg = example_config
      and i = 1 and sl = leaderboard_slot]
  have b: "fst (loadAdForSlot ?ev example_config 1 leaderboard leaderboard_slot)
       = leaderboard\<lparr>display_none := True\<rparr>"
    using r inst'[of empty_response] by blast
  have c0: "renderAd ?ev leaderboard (Some empty_response)
       = leaderboard\<lparr>innerHTML := Cleared, display_none := True\<rparr>"
    using t0 inst'[of empty_response] by blast
  have c1: "renderAd ?ev leaderboard (Some testing_response)
       = leaderboard\<lparr>innerHTML := Cleared, display_none := True\<rparr>"
    using t1 inst'[of testing_response] by blast
  have c2: "renderAd ?ev leaderboard (Some (empty_response\<lparr>ad_type := JString ''brand''\<rparr>))
       = leaderboard\<lparr>innerHTML := ErrorBox ''Invalid brand ad creative.''\<rparr>"
    using t2 inst'[of "empty_response\<lparr>ad_type := JString ''brand''\<rparr>"] by blast
  have c3: "renderAd ?ev leaderboard (Some (empty_response\<lparr>ad_type := JString ''ortb''\<rparr>))
       = leaderboard\<lparr>innerHTML := ErrorBox ''No valid bid received.''\<rparr>"
    using t3 inst'[of "empty_response\<lparr>ad_type := JString ''ortb''\<rparr>"] by blast
  have c4: "renderAd ?ev leaderboard (Some imageless_response)
       = leaderboard\<lparr>innerHTML := ErrorBox ''Invalid ad creative.''\<rparr>"
    using t4 inst'[of imageless_response imageless_bid] by blast
  show ?thesis
    using m r a b c0 c1 c2 c3 c4 by (intro conjI)
qed

text \<open>
  C10 as stated fails for a misconfigured slot and for a failed bid request: the slot is
  hidden, and holds the page's own content or the loading box, not an error box.
\<close>

theorem failed_slots_are_hidden:
  "display_none (fst (process_placeholder (example_env second_throws) example_config 0 unset))
   \<and> innerHTML (fst (process_placeholder (example_env second_throws) example_config 0 unset)) = Original
   \<and> display_none (fst (loadAdForSlot (example_env second_throws) example_config 1
        (leaderboard\<lparr>innerHTML := LoadingBox\<rparr>) leaderboard_slot))
   \<and> innerHTML (fst (loadAdForSlot (example_env second_throws) example_config 1
        (leaderboard\<lparr>innerHTML := LoadingBox\<rparr>) leaderboard_slot)) = LoadingBox"
  by (simp add: run_defs unset_def leaderboard_def leaderboard_slot_def second_throws_def parse_defs)

end
